theory Spec2Isabelle
  imports Main "HOL-Library.Word" "HOL-Library.Monad_Syntax"
begin

unbundle bit_operations_syntax

section \<open>The TFmini Plus driver (TFmini_plus.cpp) as a shallow embedding\<close>

text \<open>
  Every function of \<^verbatim>\<open>TFmini_plus.cpp\<close> becomes a HOL function of the same name.
  The driver object, the serial stream it points to and the I2C peripheral (\<^verbatim>\<open>Wire\<close>)
  are one record that is passed in and returned. A C array is a list of bytes; an access
  outside the array is undefined behaviour in C++ and is the value \<open>None\<close> here, so every
  function that touches an array returns an \<open>option\<close>.
\<close>

type_synonym uint8_t = "8 word"
type_synonym uint16_t = "16 word"
type_synonym uint32_t = "32 word"

text \<open>
  \<^verbatim>\<open>size_t\<close> is taken at 16 bits, its width on the AVR boards. The width matters only where
  the source converts a negative \<^verbatim>\<open>int\<close> to \<^verbatim>\<open>size_t\<close>, that is for a size argument of 0
  in \<^verbatim>\<open>calculate_checksum\<close> and below 2 in \<^verbatim>\<open>uart_receive_data\<close>.
\<close>

type_synonym size_t = "16 word"

subsection \<open>Arrays\<close>

definition load :: "uint8_t list \<Rightarrow> int \<Rightarrow> uint8_t option" where
  "load buf i = (if 0 \<le> i \<and> i < int (length buf) then Some (buf ! nat i) else None)"

definition store :: "uint8_t list \<Rightarrow> int \<Rightarrow> uint8_t \<Rightarrow> uint8_t list option" where
  "store buf i v = (if 0 \<le> i \<and> i < int (length buf) then Some (buf[nat i := v]) else None)"

text \<open>A block write of \<open>bytes\<close> at offset \<open>off\<close>, as \<^verbatim>\<open>readBytes\<close> does into its buffer.\<close>

definition store_bytes :: "uint8_t list \<Rightarrow> nat \<Rightarrow> uint8_t list \<Rightarrow> uint8_t list option" where
  "store_bytes buf off bytes =
     (if bytes = [] then Some buf
      else if off + length bytes \<le> length buf
      then Some (take off buf @ bytes @ drop (off + length bytes) buf)
      else None)"

subsection \<open>Constants of the header\<close>

datatype TFMINI_PLUS_COMMANDS =
    TFMINI_PLUS_GET_DATA
  | TFMINI_PLUS_GET_VERSION
  | TFMINI_PLUS_SYSTEM_RESET
  | TFMINI_PLUS_SET_FRAME_RATE
  | TFMINI_PLUS_TRIGGER_DETECTION
  | TFMINI_PLUS_SET_OUTPUT_FORMAT
  | TFMINI_PLUS_SET_BAUD_RATE
  | TFMINI_PLUS_SWITCH_DATA_OUTPUT
  | TFMINI_PLUS_SET_COMMUNICATION_INTERFACE
  | TFMINI_PLUS_SET_I2C_ADDRESS
  | TFMINI_PLUS_SET_IO_MODE
  | TFMINI_PLUS_RESTORE_FACTORY_SETTINGS
  | TFMINI_PLUS_SAVE_SETTINGS

fun command_code :: "TFMINI_PLUS_COMMANDS \<Rightarrow> uint8_t" where
  "command_code TFMINI_PLUS_GET_DATA = 0"
| "command_code TFMINI_PLUS_GET_VERSION = 1"
| "command_code TFMINI_PLUS_SYSTEM_RESET = 2"
| "command_code TFMINI_PLUS_SET_FRAME_RATE = 3"
| "command_code TFMINI_PLUS_TRIGGER_DETECTION = 4"
| "command_code TFMINI_PLUS_SET_OUTPUT_FORMAT = 5"
| "command_code TFMINI_PLUS_SET_BAUD_RATE = 6"
| "command_code TFMINI_PLUS_SWITCH_DATA_OUTPUT = 7"
| "command_code TFMINI_PLUS_SET_COMMUNICATION_INTERFACE = 0x0A"
| "command_code TFMINI_PLUS_SET_I2C_ADDRESS = 0x0B"
| "command_code TFMINI_PLUS_SET_IO_MODE = 0x3B"
| "command_code TFMINI_PLUS_RESTORE_FACTORY_SETTINGS = 0x10"
| "command_code TFMINI_PLUS_SAVE_SETTINGS = 0x11"

datatype tfminiplus_mode_t = STANDARD

fun mode_value :: "tfminiplus_mode_t \<Rightarrow> int" where
  "mode_value STANDARD = 0"

datatype tfminiplus_framerate_t =
    TFMINI_PLUS_FRAMERATE_0HZ
  | TFMINI_PLUS_FRAMERATE_1HZ
  | TFMINI_PLUS_FRAMERATE_2HZ
  | TFMINI_PLUS_FRAMERATE_5HZ
  | TFMINI_PLUS_FRAMERATE_10HZ
  | TFMINI_PLUS_FRAMERATE_20HZ
  | TFMINI_PLUS_FRAMERATE_25HZ
  | TFMINI_PLUS_FRAMERATE_50HZ
  | TFMINI_PLUS_FRAMERATE_100HZ
  | TFMINI_PLUS_FRAMERATE_200HZ
  | TFMINI_PLUS_FRAMERATE_250HZ
  | TFMINI_PLUS_FRAMERATE_500HZ
  | TFMINI_PLUS_FRAMERATE_1000HZ

fun framerate_value :: "tfminiplus_framerate_t \<Rightarrow> int" where
  "framerate_value TFMINI_PLUS_FRAMERATE_0HZ = 0"
| "framerate_value TFMINI_PLUS_FRAMERATE_1HZ = 1"
| "framerate_value TFMINI_PLUS_FRAMERATE_2HZ = 2"
| "framerate_value TFMINI_PLUS_FRAMERATE_5HZ = 5"
| "framerate_value TFMINI_PLUS_FRAMERATE_10HZ = 10"
| "framerate_value TFMINI_PLUS_FRAMERATE_20HZ = 20"
| "framerate_value TFMINI_PLUS_FRAMERATE_25HZ = 25"
| "framerate_value TFMINI_PLUS_FRAMERATE_50HZ = 50"
| "framerate_value TFMINI_PLUS_FRAMERATE_100HZ = 100"
| "framerate_value TFMINI_PLUS_FRAMERATE_200HZ = 200"
| "framerate_value TFMINI_PLUS_FRAMERATE_250HZ = 250"
| "framerate_value TFMINI_PLUS_FRAMERATE_500HZ = 500"
| "framerate_value TFMINI_PLUS_FRAMERATE_1000HZ = 1000"

datatype tfminiplus_baudrate_t =
    TFMINI_PLUS_BAUDRATE_9600
  | TFMINI_PLUS_BAUDRATE_19200
  | TFMINI_PLUS_BAUDRATE_38400
  | TFMINI_PLUS_BAUDRATE_57600
  | TFMINI_PLUS_BAUDRATE_115200

fun baudrate_value :: "tfminiplus_baudrate_t \<Rightarrow> int" where
  "baudrate_value TFMINI_PLUS_BAUDRATE_9600 = 9600"
| "baudrate_value TFMINI_PLUS_BAUDRATE_19200 = 19200"
| "baudrate_value TFMINI_PLUS_BAUDRATE_38400 = 38400"
| "baudrate_value TFMINI_PLUS_BAUDRATE_57600 = 57600"
| "baudrate_value TFMINI_PLUS_BAUDRATE_115200 = 115200"

datatype TFMINI_PLUS_OUTPUT_FORMAT =
    TFMINI_PLUS_OUTPUT_CM
  | TFMINI_PLUS_OUTPUT_PIXHAWK
  | TFMINI_PLUS_OUTPUT_MM

fun output_format_value :: "TFMINI_PLUS_OUTPUT_FORMAT \<Rightarrow> int" where
  "output_format_value TFMINI_PLUS_OUTPUT_CM = 1"
| "output_format_value TFMINI_PLUS_OUTPUT_PIXHAWK = 2"
| "output_format_value TFMINI_PLUS_OUTPUT_MM = 6"

datatype TFMINI_PLUS_COMMUNICATION_MODE = TFMINI_PLUS_UART | TFMINI_PLUS_I2C

fun communication_mode_value :: "TFMINI_PLUS_COMMUNICATION_MODE \<Rightarrow> int" where
  "communication_mode_value TFMINI_PLUS_UART = 0"
| "communication_mode_value TFMINI_PLUS_I2C = 1"

text \<open>The union \<^verbatim>\<open>tfminiplus_data_t\<close>, read through its struct member.\<close>

record tfminiplus_data_t =
  distance :: uint16_t
  strength :: uint16_t
  temperature :: uint16_t

text \<open>
  \<^verbatim>\<open>tfminiplus_version_t\<close> is used by \<^verbatim>\<open>get_version\<close> and declared nowhere in the
  header; its three members are the ones the function assigns.
\<close>

record tfminiplus_version_t =
  revision :: uint8_t
  minor :: uint8_t
  major :: uint8_t

subsection \<open>Constants used by the source and missing from the header\<close>

text \<open>
  \<^verbatim>\<open>TFmini_plus.cpp\<close> uses macros that no file of the repository defines. Each is given
  here the value the spec states for it.
\<close>

text \<open>
  Modelled from the spec: the macro \<^verbatim>\<open>TFMINI_PLUS_FRAME_START\<close>, missing from the header
  (which has \<^verbatim>\<open>FRAME_START = 0x5A\<close>); the frame start of a command packet is 0x5A.
\<close>

definition TFMINI_PLUS_FRAME_START :: uint8_t where
  "TFMINI_PLUS_FRAME_START = 0x5A"

text \<open>
  Modelled from the spec: the macro \<^verbatim>\<open>TFMINI_PLUS_RESPONSE_FRAME_HEADER\<close>, missing from the
  header; a data packet starts with two bytes 0x59.
\<close>

definition TFMINI_PLUS_RESPONSE_FRAME_HEADER :: int where
  "TFMINI_PLUS_RESPONSE_FRAME_HEADER = 0x59"

text \<open>
  Modelled from the spec: the macro \<^verbatim>\<open>TFMINI_PLUS_MINIMUM_PACKET_SIZE\<close>, missing from the
  header; a packet without arguments is header, length, command and checksum, 4 bytes.
\<close>

definition TFMINI_PLUS_MINIMUM_PACKET_SIZE :: int where
  "TFMINI_PLUS_MINIMUM_PACKET_SIZE = 4"

text \<open>
  Modelled from the spec: the macro \<^verbatim>\<open>TFMINI_PLUS_PACKET_POS_LENGTH\<close>, missing from the header;
  byte 1 of a packet is its length.
\<close>

definition TFMINI_PLUS_PACKET_POS_LENGTH :: int where
  "TFMINI_PLUS_PACKET_POS_LENGTH = 1"

text \<open>
  Modelled from the spec: the macro \<^verbatim>\<open>TFMINI_PLUS_PACKET_POS_COMMAND\<close>, missing from the header;
  byte 2 of a packet is the command code.
\<close>

definition TFMINI_PLUS_PACKET_POS_COMMAND :: int where
  "TFMINI_PLUS_PACKET_POS_COMMAND = 2"

text \<open>
  The packet lengths. The spec gives the total size of a packet as header (1), length (1),
  command (1), the argument bytes and checksum (1): each length is 4 plus the number of
  argument or payload bytes the function puts into or reads from the packet.
\<close>

text \<open>
  Modelled from the spec: the macro \<^verbatim>\<open>TFMINI_PLUS_PACK_LENGTH_SET_I2C_ADDRESS\<close>, missing from
  the header; one argument byte, the address.
\<close>

definition TFMINI_PLUS_PACK_LENGTH_SET_I2C_ADDRESS :: uint8_t where
  "TFMINI_PLUS_PACK_LENGTH_SET_I2C_ADDRESS = 5"

text \<open>
  Modelled from the spec: the macro \<^verbatim>\<open>TFMINI_PLUS_PACK_LENGTH_VERSION_RESPONSE\<close>, missing from
  the header; three payload bytes: revision, minor, major.
\<close>

definition TFMINI_PLUS_PACK_LENGTH_VERSION_RESPONSE :: uint8_t where
  "TFMINI_PLUS_PACK_LENGTH_VERSION_RESPONSE = 7"

text \<open>
  Modelled from the spec: the macro \<^verbatim>\<open>TFMINI_PLUS_PACK_LENGTH_SET_FRAME_RATE\<close>, missing from
  the header; two argument bytes, the frame rate.
\<close>

definition TFMINI_PLUS_PACK_LENGTH_SET_FRAME_RATE :: uint8_t where
  "TFMINI_PLUS_PACK_LENGTH_SET_FRAME_RATE = 6"

text \<open>
  Modelled from the spec: the macro \<^verbatim>\<open>TFMINI_PLUS_PACK_LENGTH_SET_BAUD_RATE\<close>, missing from
  the header; four argument bytes, the baud rate.
\<close>

definition TFMINI_PLUS_PACK_LENGTH_SET_BAUD_RATE :: uint8_t where
  "TFMINI_PLUS_PACK_LENGTH_SET_BAUD_RATE = 8"

text \<open>
  Modelled from the spec: the macro \<^verbatim>\<open>TFMINI_PLUS_PACK_LENGTH_SET_OUTPUT_FORMAT\<close>, missing from
  the header; one argument byte, the format.
\<close>

definition TFMINI_PLUS_PACK_LENGTH_SET_OUTPUT_FORMAT :: uint8_t where
  "TFMINI_PLUS_PACK_LENGTH_SET_OUTPUT_FORMAT = 5"

text \<open>
  Modelled from the spec: the macro \<^verbatim>\<open>TFMINI_PLUS_PACK_LENGTH_GET_DATA\<close>, missing from
  the header; one argument byte, the unit flag.
\<close>

definition TFMINI_PLUS_PACK_LENGTH_GET_DATA :: uint8_t where
  "TFMINI_PLUS_PACK_LENGTH_GET_DATA = 5"

text \<open>
  Modelled from the spec: the macro \<^verbatim>\<open>TFMINI_PLUS_PACK_LENGTH_DATA_RESPONSE\<close>, missing from
  the header; the data packet has 9 bytes, offsets 0 to 8.
\<close>

definition TFMINI_PLUS_PACK_LENGTH_DATA_RESPONSE :: uint8_t where
  "TFMINI_PLUS_PACK_LENGTH_DATA_RESPONSE = 9"

text \<open>
  Modelled from the spec: the macro \<^verbatim>\<open>TFMINI_PLUS_PACK_LENGTH_SET_IO_MODE\<close>, missing from
  the header; five argument bytes: mode, critical distance, hysteresis.
\<close>

definition TFMINI_PLUS_PACK_LENGTH_SET_IO_MODE :: uint8_t where
  "TFMINI_PLUS_PACK_LENGTH_SET_IO_MODE = 9"

text \<open>
  Modelled from the spec: the macro \<^verbatim>\<open>TFMINI_PLUS_PACK_LENGTH_SET_COMMUNICATION_INTERFACE\<close>, missing from
  the header; one argument byte, the mode.
\<close>

definition TFMINI_PLUS_PACK_LENGTH_SET_COMMUNICATION_INTERFACE :: uint8_t where
  "TFMINI_PLUS_PACK_LENGTH_SET_COMMUNICATION_INTERFACE = 5"

text \<open>
  Modelled from the spec: the macro \<^verbatim>\<open>TFMINI_PLUS_PACK_LENGTH_ENABLE_DATA_OUTPUT\<close>, missing from
  the header; one argument byte, the flag.
\<close>

definition TFMINI_PLUS_PACK_LENGTH_ENABLE_DATA_OUTPUT :: uint8_t where
  "TFMINI_PLUS_PACK_LENGTH_ENABLE_DATA_OUTPUT = 5"

text \<open>
  Modelled from the spec: the macro \<^verbatim>\<open>TFMINI_PLUS_PACK_LENGTH_SAVE_SETTINGS_RESPONSE\<close>, missing from
  the header; one payload byte, the status read at offset 3.
\<close>

definition TFMINI_PLUS_PACK_LENGTH_SAVE_SETTINGS_RESPONSE :: uint8_t where
  "TFMINI_PLUS_PACK_LENGTH_SAVE_SETTINGS_RESPONSE = 5"

text \<open>
  Modelled from the spec: the macro \<^verbatim>\<open>TFMINI_PLUS_PACK_LENGTH_SYSTEM_RESET_RESPONSE\<close>, missing from
  the header; one payload byte, the status read at offset 3.
\<close>

definition TFMINI_PLUS_PACK_LENGTH_SYSTEM_RESET_RESPONSE :: uint8_t where
  "TFMINI_PLUS_PACK_LENGTH_SYSTEM_RESET_RESPONSE = 5"

text \<open>
  Modelled from the spec: the macro \<^verbatim>\<open>TFMINI_PLUS_PACK_LENGTH_RESTORE_FACTORY_SETTINGS_RESPONSE\<close>, missing from
  the header; one payload byte, the status read at offset 3.
\<close>

definition TFMINI_PLUS_PACK_LENGTH_RESTORE_FACTORY_SETTINGS_RESPONSE :: uint8_t where
  "TFMINI_PLUS_PACK_LENGTH_RESTORE_FACTORY_SETTINGS_RESPONSE = 5"

text \<open>
  Modelled from the spec: \<^verbatim>\<open>TFMINI_PLUS_ENABLE_DATA_OUTPUT\<close> is the command that \<^verbatim>\<open>enable_output\<close>
  sends and is not a member of the header's enum; the spec lists switch-data-output (7) as
  the command that enables and disables the output.
\<close>

definition TFMINI_PLUS_ENABLE_DATA_OUTPUT :: TFMINI_PLUS_COMMANDS where
  "TFMINI_PLUS_ENABLE_DATA_OUTPUT = TFMINI_PLUS_SWITCH_DATA_OUTPUT"

lemmas pack_length_defs =
  TFMINI_PLUS_PACK_LENGTH_SET_I2C_ADDRESS_def TFMINI_PLUS_PACK_LENGTH_VERSION_RESPONSE_def
  TFMINI_PLUS_PACK_LENGTH_SET_FRAME_RATE_def TFMINI_PLUS_PACK_LENGTH_SET_BAUD_RATE_def
  TFMINI_PLUS_PACK_LENGTH_SET_OUTPUT_FORMAT_def TFMINI_PLUS_PACK_LENGTH_GET_DATA_def
  TFMINI_PLUS_PACK_LENGTH_DATA_RESPONSE_def TFMINI_PLUS_PACK_LENGTH_SET_IO_MODE_def
  TFMINI_PLUS_PACK_LENGTH_SET_COMMUNICATION_INTERFACE_def
  TFMINI_PLUS_PACK_LENGTH_ENABLE_DATA_OUTPUT_def
  TFMINI_PLUS_PACK_LENGTH_SAVE_SETTINGS_RESPONSE_def
  TFMINI_PLUS_PACK_LENGTH_SYSTEM_RESET_RESPONSE_def
  TFMINI_PLUS_PACK_LENGTH_RESTORE_FACTORY_SETTINGS_RESPONSE_def

lemmas header_defs =
  TFMINI_PLUS_FRAME_START_def TFMINI_PLUS_RESPONSE_FRAME_HEADER_def
  TFMINI_PLUS_MINIMUM_PACKET_SIZE_def TFMINI_PLUS_PACKET_POS_LENGTH_def
  TFMINI_PLUS_PACKET_POS_COMMAND_def TFMINI_PLUS_ENABLE_DATA_OUTPUT_def

subsection \<open>Checksum\<close>

text \<open>
  \<^verbatim>\<open>for (size_t i = 0; i < (size - 1); i++) checksum += data[i];\<close>
  The bound \<^verbatim>\<open>size - 1\<close> is an \<^verbatim>\<open>int\<close> that the comparison converts to \<^verbatim>\<open>size_t\<close>, so a
  size of 0 gives the largest \<^verbatim>\<open>size_t\<close>. The parameter \<^verbatim>\<open>size\<close> of the source is
  written \<open>sz\<close> throughout, \<open>size\<close> being a constant of HOL.
\<close>

function checksum_loop :: "uint8_t list \<Rightarrow> nat \<Rightarrow> nat \<Rightarrow> uint8_t \<Rightarrow> uint8_t option" where
  "checksum_loop data bound i checksum =
     (if i < bound then
        (case load data (int i) of
           None \<Rightarrow> None
         | Some d \<Rightarrow> checksum_loop data bound (i + 1) (checksum + d))
      else Some checksum)"
  by pat_completeness auto
termination
  by (relation "measure (\<lambda>(data, bound, i, checksum). length data - i)")
     (auto simp: load_def split: if_splits)

declare checksum_loop.simps [simp del]

definition calculate_checksum :: "uint8_t list \<Rightarrow> uint8_t \<Rightarrow> uint8_t option" where
  "calculate_checksum data sz =
     checksum_loop data (unat ((ucast sz :: size_t) - 1)) 0 0"

definition compare_checksum :: "uint8_t list \<Rightarrow> uint8_t \<Rightarrow> bool option" where
  "compare_checksum data sz = do {
     checksum \<leftarrow> calculate_checksum data (sz - 1);
     sent \<leftarrow> load data (uint sz - 1);
     Some (checksum = sent)
   }"

subsection \<open>The driver object and its transports\<close>

text \<open>What the driver does to the outside, in the order it does it.\<close>

datatype event =
    Ev_stream_write "uint8_t list" nat
  | Ev_stream_flush
  | Ev_stream_read int
  | Ev_stream_readBytes nat "uint8_t list"
  | Ev_wire_transmission uint8_t "uint8_t list" uint8_t
  | Ev_wire_requestFrom uint8_t uint8_t
  | Ev_delay nat

text \<open>
  The members \<^verbatim>\<open>_communications_mode\<close> and \<^verbatim>\<open>_address\<close> of the class, then the state of
  the stream behind \<^verbatim>\<open>_stream\<close> and of \<^verbatim>\<open>Wire\<close>:
  \<^item> \<open>stream_rx\<close>: the bytes the stream has buffered, in order: what \<^verbatim>\<open>available()\<close>
    counts and \<^verbatim>\<open>read()\<close> takes;
  \<^item> \<open>stream_late\<close>: the bytes that follow and are not buffered yet: they arrive while a
    \<^verbatim>\<open>readBytes\<close> waits for them, before its timeout (and not between two calls of
    \<^verbatim>\<open>available()\<close> and \<^verbatim>\<open>read()\<close>);
  \<^item> \<open>stream_accept\<close>: how many bytes of one \<^verbatim>\<open>write\<close> the stream takes;
  \<^item> \<open>wire_capacity\<close>: how many bytes the transmit buffer of \<^verbatim>\<open>Wire\<close> holds;
  \<^item> \<open>wire_status\<close>: what \<^verbatim>\<open>endTransmission\<close> returns;
  \<^item> \<open>wire_device\<close>: the bytes the addressed device answers to requests, in order;
  \<^item> \<open>wire_tx_address\<close>, \<open>wire_tx\<close>, \<open>wire_rx\<close>: the buffers of \<^verbatim>\<open>Wire\<close>;
  \<^item> \<open>events\<close>: the trace.
\<close>

record TFminiPlus =
  m_communications_mode :: TFMINI_PLUS_COMMUNICATION_MODE
  m_address :: uint8_t
  stream_rx :: "uint8_t list"
  stream_late :: "uint8_t list"
  stream_accept :: nat
  wire_capacity :: nat
  wire_status :: uint8_t
  wire_device :: "uint8_t list"
  wire_tx_address :: uint8_t
  wire_tx :: "uint8_t list"
  wire_rx :: "uint8_t list"
  events :: "event list"

definition emit :: "event \<Rightarrow> TFminiPlus \<Rightarrow> TFminiPlus" where
  "emit e w = w\<lparr>events := events w @ [e]\<rparr>"

text \<open>
  The Arduino classes \<^verbatim>\<open>Stream\<close> and \<^verbatim>\<open>TwoWire\<close> (the object \<^verbatim>\<open>Wire\<close>) and the function
  \<^verbatim>\<open>delay\<close> are not part of the repository. Each call the source makes is given here the
  behaviour the spec states for the transport (Transport Abstraction).
\<close>

text \<open>
  Modelled from the spec: \<^verbatim>\<open>Stream::write(buffer, size)\<close> takes up to \<^verbatim>\<open>size\<close> bytes and returns how
  many it took. It reads \<^verbatim>\<open>size\<close> bytes of the buffer.
\<close>

definition Stream_write :: "uint8_t list \<Rightarrow> uint8_t \<Rightarrow> TFminiPlus \<Rightarrow> (nat \<times> TFminiPlus) option" where
  "Stream_write input sz w =
     (if unat sz \<le> length input
      then (let n = min (unat sz) (stream_accept w)
            in Some (n, emit (Ev_stream_write (take (unat sz) input) n) w))
      else None)"

text \<open>
  Modelled from the spec: \<^verbatim>\<open>Stream::flush()\<close> waits for the written bytes to leave; it changes
  nothing that the driver reads.
\<close>

definition Stream_flush :: "TFminiPlus \<Rightarrow> TFminiPlus" where
  "Stream_flush w = emit Ev_stream_flush w"

text \<open>
  Modelled from the spec: \<^verbatim>\<open>Stream::available()\<close> is the number of bytes buffered now. It
  can be 0 while more bytes are still to arrive.
\<close>

definition Stream_available :: "TFminiPlus \<Rightarrow> nat" where
  "Stream_available w = length (stream_rx w)"

text \<open>
  Modelled from the spec: \<^verbatim>\<open>Stream::read()\<close> does not wait: it takes one buffered byte, or
  returns -1 and takes nothing when none is buffered.
\<close>

definition Stream_read :: "TFminiPlus \<Rightarrow> int \<times> TFminiPlus" where
  "Stream_read w =
     (case stream_rx w of
        [] \<Rightarrow> (-1, emit (Ev_stream_read (-1)) w)
      | b # bs \<Rightarrow> (uint b, emit (Ev_stream_read (uint b)) (w\<lparr>stream_rx := bs\<rparr>)))"

text \<open>
  Modelled from the spec: \<^verbatim>\<open>Stream::readBytes(buffer, length)\<close> blocks until \<^verbatim>\<open>length\<close> bytes
  have arrived or the timeout has passed: it takes up to \<^verbatim>\<open>length\<close> bytes, the buffered ones
  first and then the ones that arrive while it waits, fewer when both run dry (the
  timeout), writes them to the buffer (here the array and the offset the pointer stands
  for) and returns how many.
\<close>

definition Stream_readBytes ::
  "uint8_t list \<Rightarrow> nat \<Rightarrow> nat \<Rightarrow> TFminiPlus \<Rightarrow> (nat \<times> uint8_t list \<times> TFminiPlus) option" where
  "Stream_readBytes buffer off n w =
     (let got = take n (stream_rx w @ stream_late w) in
      do {
        buffer' \<leftarrow> store_bytes buffer off got;
        Some (length got, buffer',
              emit (Ev_stream_readBytes n got)
                (w\<lparr>stream_rx := drop n (stream_rx w),
                   stream_late := drop (n - length (stream_rx w)) (stream_late w)\<rparr>))
      })"

text \<open>
  Modelled from the spec: \<^verbatim>\<open>Wire.beginTransmission(address)\<close> starts a write to the device at
  that address with an empty transmit buffer.
\<close>

definition Wire_beginTransmission :: "uint8_t \<Rightarrow> TFminiPlus \<Rightarrow> TFminiPlus" where
  "Wire_beginTransmission a w = w\<lparr>wire_tx_address := a, wire_tx := []\<rparr>"

text \<open>
  Modelled from the spec: \<^verbatim>\<open>Wire.write(data, quantity)\<close> puts the bytes that fit into the
  transmit buffer and returns how many.
\<close>

definition Wire_write :: "uint8_t list \<Rightarrow> uint8_t \<Rightarrow> TFminiPlus \<Rightarrow> (nat \<times> TFminiPlus) option" where
  "Wire_write input sz w =
     (if unat sz \<le> length input
      then (let n = min (unat sz) (wire_capacity w - length (wire_tx w))
            in Some (n, w\<lparr>wire_tx := wire_tx w @ take n input\<rparr>))
      else None)"

text \<open>
  Modelled from the spec: \<^verbatim>\<open>Wire.endTransmission()\<close> sends the buffer to the device and returns
  the status of the bus, a byte.
\<close>

definition Wire_endTransmission :: "TFminiPlus \<Rightarrow> uint8_t \<times> TFminiPlus" where
  "Wire_endTransmission w =
     (wire_status w,
      emit (Ev_wire_transmission (wire_tx_address w) (wire_tx w) (wire_status w)) w)"

text \<open>
  Modelled from the spec: \<^verbatim>\<open>Wire.requestFrom(address, quantity)\<close> asks the device for up to
  \<^verbatim>\<open>quantity\<close> bytes, which may answer fewer, and holds them in the receive buffer.
\<close>

definition Wire_requestFrom :: "uint8_t \<Rightarrow> uint8_t \<Rightarrow> TFminiPlus \<Rightarrow> TFminiPlus" where
  "Wire_requestFrom a quantity w =
     emit (Ev_wire_requestFrom a quantity)
       (w\<lparr>wire_rx := take (unat quantity) (wire_device w),
          wire_device := drop (unat quantity) (wire_device w)\<rparr>)"

text \<open>
  Modelled from the spec: \<^verbatim>\<open>Wire.available()\<close> is the number of bytes in the receive buffer.
\<close>

definition Wire_available :: "TFminiPlus \<Rightarrow> nat" where
  "Wire_available w = length (wire_rx w)"

text \<open>
  Modelled from the spec: \<^verbatim>\<open>Wire.read()\<close> takes one byte from the receive buffer, or returns -1.
\<close>

definition Wire_read :: "TFminiPlus \<Rightarrow> int \<times> TFminiPlus" where
  "Wire_read w =
     (case wire_rx w of
        [] \<Rightarrow> (-1, w)
      | b # bs \<Rightarrow> (uint b, w\<lparr>wire_rx := bs\<rparr>))"

text \<open>
  Modelled from the spec: \<^verbatim>\<open>delay(ms)\<close> of the Arduino core waits; the trace records the call.
\<close>

definition delay :: "nat \<Rightarrow> TFminiPlus \<Rightarrow> TFminiPlus" where
  "delay ms w = emit (Ev_delay ms) w"

subsection \<open>Sending\<close>

text \<open>
  \<^verbatim>\<open>uint8_t bytes_sent = _stream->write(input, size) == size;\<close> stores the result of the
  comparison, 0 or 1, and the function returns \<^verbatim>\<open>bytes_sent == size\<close>.
\<close>

definition send_uart :: "uint8_t list \<Rightarrow> uint8_t \<Rightarrow> TFminiPlus \<Rightarrow> (bool \<times> TFminiPlus) option" where
  "send_uart input sz w = do {
     (written, w1) \<leftarrow> Stream_write input sz w;
     let bytes_sent = (if written = unat sz then 1 else 0 :: uint8_t);
     let w2 = Stream_flush w1;
     Some (bytes_sent = sz, w2)
   }"

text \<open>
  \<^verbatim>\<open>bool acknowledged = Wire.endTransmission();\<close> converts the status byte to \<^verbatim>\<open>bool\<close>:
  true when the status is not 0.
\<close>

definition send_i2c :: "uint8_t list \<Rightarrow> uint8_t \<Rightarrow> TFminiPlus \<Rightarrow> (bool \<times> TFminiPlus) option" where
  "send_i2c input sz w = do {
     let w1 = Wire_beginTransmission (m_address w) w;
     (n, w2) \<leftarrow> Wire_write input sz w1;
     let bytes_sent = (of_nat n :: uint8_t);
     let (status, w3) = Wire_endTransmission w2;
     let acknowledged = (status \<noteq> 0);
     Some (bytes_sent = sz \<and> acknowledged, w3)
   }"

definition send :: "uint8_t list \<Rightarrow> uint8_t \<Rightarrow> TFminiPlus \<Rightarrow> (bool \<times> TFminiPlus) option" where
  "send input sz w = do {
     let result = False;
     (result, w) \<leftarrow> (if m_communications_mode w = TFMINI_PLUS_UART
                      then send_uart input sz w else Some (result, w));
     (result, w) \<leftarrow> (if m_communications_mode w = TFMINI_PLUS_I2C
                      then send_i2c input sz w else Some (result, w));
     Some (result, w)
   }"

text \<open>
  The loop of \<^verbatim>\<open>send_command\<close> that copies the arguments:
  \<^verbatim>\<open>for (size_t i = 0; i < size - MINIMUM_PACKET_SIZE; i++) packet[MINIMUM_PACKET_SIZE - 1 + i] = arguments[i];\<close>
\<close>

function copy_arguments ::
  "uint8_t list \<Rightarrow> uint8_t list \<Rightarrow> nat \<Rightarrow> nat \<Rightarrow> uint8_t list option" where
  "copy_arguments packet arguments bound i =
     (if i < bound then
        (case load arguments (int i) of
           None \<Rightarrow> None
         | Some a \<Rightarrow>
             (case store packet (TFMINI_PLUS_MINIMUM_PACKET_SIZE - 1 + int i) a of
                None \<Rightarrow> None
              | Some packet' \<Rightarrow> copy_arguments packet' arguments bound (i + 1)))
      else Some packet)"
  by pat_completeness auto
termination
  by (relation "measure (\<lambda>(packet, arguments, bound, i). bound - i)") auto

declare copy_arguments.simps [simp del]

text \<open>
  \<^verbatim>\<open>uint8_t packet[size];\<close> is an array of \<open>size\<close> bytes that the function fills before it
  reads them; it starts here as zeros.
\<close>

definition send_command ::
  "TFMINI_PLUS_COMMANDS \<Rightarrow> uint8_t list \<Rightarrow> uint8_t \<Rightarrow> TFminiPlus \<Rightarrow> (bool \<times> TFminiPlus) option" where
  "send_command command arguments sz w = do {
     let packet = replicate (unat sz) (0 :: uint8_t);
     packet \<leftarrow> store packet 0 TFMINI_PLUS_FRAME_START;
     packet \<leftarrow> store packet 1 sz;
     packet \<leftarrow> store packet 2 (command_code command);
     packet \<leftarrow> (if uint sz > TFMINI_PLUS_MINIMUM_PACKET_SIZE
                then copy_arguments packet arguments
                       (nat (uint sz - TFMINI_PLUS_MINIMUM_PACKET_SIZE)) 0
                else Some packet);
     checksum \<leftarrow> calculate_checksum packet (sz - 1);
     packet \<leftarrow> store packet (uint sz - 1) checksum;
     send packet sz w
   }"

text \<open>The overload without arguments: \<^verbatim>\<open>send_command(command, 0, MINIMUM_PACKET_SIZE)\<close>.\<close>

definition send_command0 :: "TFMINI_PLUS_COMMANDS \<Rightarrow> TFminiPlus \<Rightarrow> (bool \<times> TFminiPlus) option" where
  "send_command0 command w =
     send_command command [] (word_of_int TFMINI_PLUS_MINIMUM_PACKET_SIZE) w"

subsection \<open>Receiving\<close>

definition receive_uart ::
  "uint8_t list \<Rightarrow> uint8_t \<Rightarrow> TFminiPlus \<Rightarrow> (bool \<times> uint8_t list \<times> TFminiPlus) option" where
  "receive_uart output sz w = do {
     (n, output, w) \<leftarrow> Stream_readBytes output 0 (unat sz) w;
     let bytes_read = (of_nat n :: uint8_t);
     Some (bytes_read = sz, output, w)
   }"

text \<open>
  \<^verbatim>\<open>for (bytes_read = 0; (bytes_read < size) and Wire.available(); bytes_read++)\<close>
\<close>

function receive_i2c_loop ::
  "uint8_t list \<Rightarrow> uint8_t \<Rightarrow> nat \<Rightarrow> TFminiPlus \<Rightarrow> (nat \<times> uint8_t list \<times> TFminiPlus) option" where
  "receive_i2c_loop output sz bytes_read w =
     (if bytes_read < unat sz \<and> Wire_available w \<noteq> 0 then
        (let (c, w') = Wire_read w in
         case store output (int bytes_read) (word_of_int c) of
           None \<Rightarrow> None
         | Some output' \<Rightarrow> receive_i2c_loop output' sz (bytes_read + 1) w')
      else Some (bytes_read, output, w))"
  by pat_completeness auto
termination
  by (relation "measure (\<lambda>(output, sz, bytes_read, w). unat sz - bytes_read)") auto

declare receive_i2c_loop.simps [simp del]

definition receive_i2c ::
  "uint8_t list \<Rightarrow> uint8_t \<Rightarrow> TFminiPlus \<Rightarrow> (bool \<times> uint8_t list \<times> TFminiPlus) option" where
  "receive_i2c output sz w = do {
     let w = Wire_requestFrom (m_address w) sz w;
     (bytes_read, output, w) \<leftarrow> receive_i2c_loop output sz 0 w;
     Some (bytes_read = unat sz, output, w)
   }"

text \<open>
  \<^verbatim>\<open>result = size == output[POS_LENGTH]; result &= compare_checksum(output, size);\<close>
  evaluates both conditions.
\<close>

definition receive ::
  "uint8_t list \<Rightarrow> uint8_t \<Rightarrow> TFminiPlus \<Rightarrow> (bool \<times> uint8_t list \<times> TFminiPlus) option" where
  "receive output sz w = do {
     let result = False;
     (result, output, w) \<leftarrow> (if m_communications_mode w = TFMINI_PLUS_UART
                              then receive_uart output sz w else Some (result, output, w));
     (result, output, w) \<leftarrow> (if m_communications_mode w = TFMINI_PLUS_I2C
                              then receive_i2c output sz w else Some (result, output, w));
     if result then do {
       len \<leftarrow> load output TFMINI_PLUS_PACKET_POS_LENGTH;
       let result = (sz = len);
       matches \<leftarrow> compare_checksum output sz;
       Some (result \<and> matches, output, w)
     } else Some (result, output, w)
   }"

text \<open>
  The loop of \<^verbatim>\<open>uart_receive_data\<close>. The second \<^verbatim>\<open>read()\<close> is made only when the first
  returned the marker (\<^verbatim>\<open>and\<close> does not evaluate its right side otherwise).
\<close>

function uart_receive_data_loop ::
  "uint8_t list \<Rightarrow> bool \<Rightarrow> TFminiPlus \<Rightarrow> (uint8_t list \<times> bool \<times> TFminiPlus) option" where
  "uart_receive_data_loop output packet_start_found w =
     (if Stream_available w \<noteq> 0 \<and> \<not> packet_start_found then
        (let (c1, w1) = Stream_read w in
         if c1 = TFMINI_PLUS_RESPONSE_FRAME_HEADER then
           (let (c2, w2) = Stream_read w1 in
            if c2 = TFMINI_PLUS_RESPONSE_FRAME_HEADER then
              (case store output 0 (word_of_int TFMINI_PLUS_RESPONSE_FRAME_HEADER) of
                 None \<Rightarrow> None
               | Some output1 \<Rightarrow>
                   (case store output1 1 (word_of_int TFMINI_PLUS_RESPONSE_FRAME_HEADER) of
                      None \<Rightarrow> None
                    | Some output2 \<Rightarrow> uart_receive_data_loop output2 True w2))
            else uart_receive_data_loop output packet_start_found w2)
         else uart_receive_data_loop output packet_start_found w1)
      else Some (output, packet_start_found, w))"
  by pat_completeness auto
termination
  by (relation "measure (\<lambda>(output, packet_start_found, w). length (stream_rx w))")
     (auto simp: Stream_available_def Stream_read_def emit_def split: list.splits)

declare uart_receive_data_loop.simps [simp del]

text \<open>
  \<^verbatim>\<open>uint8_t bytes_read = _stream->readBytes(&output[2], size - 2) + 2;\<close>
  The length \<^verbatim>\<open>size - 2\<close> is an \<^verbatim>\<open>int\<close> converted to \<^verbatim>\<open>size_t\<close>; the sum is cut to 8 bits.
\<close>

definition uart_receive_data ::
  "uint8_t list \<Rightarrow> uint8_t \<Rightarrow> TFminiPlus \<Rightarrow> (bool \<times> uint8_t list \<times> TFminiPlus) option" where
  "uart_receive_data output sz w = do {
     (output, packet_start_found, w) \<leftarrow> uart_receive_data_loop output False w;
     (n, output, w) \<leftarrow> Stream_readBytes output 2 (unat ((ucast sz :: size_t) - 2)) w;
     let bytes_read = (of_nat (n + 2) :: uint8_t);
     Some (bytes_read = sz, output, w)
   }"

definition do_i2c_wait :: "TFminiPlus \<Rightarrow> TFminiPlus" where
  "do_i2c_wait w = (if m_communications_mode w = TFMINI_PLUS_I2C then delay 100 w else w)"

subsection \<open>The operations of the class\<close>

text \<open>
  A local array such as \<^verbatim>\<open>uint8_t response[N];\<close> is not initialised by the source. Every
  cell the functions read has been written by the receive step before; the array starts
  here as zeros. The value a function computes and does not use (\<^verbatim>\<open>echoed_baudrate\<close>,
  the result of \<^verbatim>\<open>send_command\<close>) is dropped.
\<close>

definition begin_address :: "uint8_t \<Rightarrow> TFminiPlus \<Rightarrow> TFminiPlus" where
  "begin_address address w =
     w\<lparr>m_communications_mode := TFMINI_PLUS_I2C, m_address := address AND 0x7F\<rparr>"

text \<open>
  \<^verbatim>\<open>begin(Stream* stream)\<close>: the stream is given by the bytes it has buffered, the bytes
  that arrive later and the bytes it takes in a write.
\<close>

definition begin_stream ::
  "uint8_t list \<Rightarrow> uint8_t list \<Rightarrow> nat \<Rightarrow> TFminiPlus \<Rightarrow> TFminiPlus" where
  "begin_stream rx late accept w =
     w\<lparr>m_communications_mode := TFMINI_PLUS_UART, stream_rx := rx, stream_late := late,
       stream_accept := accept\<rparr>"

definition set_i2c_address :: "uint8_t \<Rightarrow> TFminiPlus \<Rightarrow> (bool \<times> TFminiPlus) option" where
  "set_i2c_address address w = do {
     let result = False;
     (_, w) \<leftarrow> send_command TFMINI_PLUS_SET_I2C_ADDRESS [address]
                 TFMINI_PLUS_PACK_LENGTH_SET_I2C_ADDRESS w;
     let w = do_i2c_wait w;
     let response = replicate (unat TFMINI_PLUS_PACK_LENGTH_SET_I2C_ADDRESS) (0 :: uint8_t);
     (received, response, w) \<leftarrow> receive response TFMINI_PLUS_PACK_LENGTH_SET_I2C_ADDRESS w;
     if received then do {
       r3 \<leftarrow> load response 3;
       if r3 = address then Some (True, w\<lparr>m_address := address\<rparr>) else Some (result, w)
     } else Some (result, w)
   }"

text \<open>
  \<^verbatim>\<open>get_version\<close> returns the struct it filled, or the struct as it was declared (not
  initialised) when the response is not accepted: \<open>None\<close> in the first component.
\<close>

definition get_version :: "TFminiPlus \<Rightarrow> (tfminiplus_version_t option \<times> TFminiPlus) option" where
  "get_version w = do {
     (_, w) \<leftarrow> send_command0 TFMINI_PLUS_GET_VERSION w;
     let w = do_i2c_wait w;
     let response = replicate (unat TFMINI_PLUS_PACK_LENGTH_VERSION_RESPONSE) (0 :: uint8_t);
     (received, response, w) \<leftarrow> receive response TFMINI_PLUS_PACK_LENGTH_VERSION_RESPONSE w;
     if received then do {
       c \<leftarrow> load response TFMINI_PLUS_PACKET_POS_COMMAND;
       if c = command_code TFMINI_PLUS_GET_VERSION then do {
         r3 \<leftarrow> load response 3;
         r4 \<leftarrow> load response 4;
         r5 \<leftarrow> load response 5;
         Some (Some \<lparr>revision = r3, minor = r4, major = r5\<rparr>, w)
       } else Some (None, w)
     } else Some (None, w)
   }"

text \<open>
  \<^verbatim>\<open>argument[0] = framerate | 0xFF; argument[1] = framerate >> 8;\<close>
  Each value is cut to 8 bits by the assignment.
\<close>

definition set_framerate :: "tfminiplus_framerate_t \<Rightarrow> TFminiPlus \<Rightarrow> (bool \<times> TFminiPlus) option" where
  "set_framerate framerate w = do {
     let result = False;
     let argument = [word_of_int (framerate_value framerate OR 0xFF),
                     word_of_int (drop_bit 8 (framerate_value framerate))];
     (_, w) \<leftarrow> send_command TFMINI_PLUS_SET_FRAME_RATE argument
                 TFMINI_PLUS_PACK_LENGTH_SET_FRAME_RATE w;
     let w = do_i2c_wait w;
     let response = replicate (unat TFMINI_PLUS_PACK_LENGTH_SET_FRAME_RATE) (0 :: uint8_t);
     (received, response, w) \<leftarrow> receive response TFMINI_PLUS_PACK_LENGTH_SET_FRAME_RATE w;
     if received then do {
       a0 \<leftarrow> load argument 0;
       r3 \<leftarrow> load response 3;
       if a0 = r3 then do {
         a1 \<leftarrow> load argument 1;
         r4 \<leftarrow> load response 4;
         Some (if a1 = r4 then True else result, w)
       } else Some (result, w)
     } else Some (result, w)
   }"

definition set_baudrate :: "tfminiplus_baudrate_t \<Rightarrow> TFminiPlus \<Rightarrow> (bool \<times> TFminiPlus) option" where
  "set_baudrate baudrate w = do {
     let result = False;
     let argument = [word_of_int (baudrate_value baudrate OR 0xFF),
                     word_of_int (drop_bit 8 (baudrate_value baudrate)),
                     word_of_int (drop_bit 16 (baudrate_value baudrate)),
                     word_of_int (drop_bit 24 (baudrate_value baudrate))];
     (_, w) \<leftarrow> send_command TFMINI_PLUS_SET_BAUD_RATE argument
                 TFMINI_PLUS_PACK_LENGTH_SET_BAUD_RATE w;
     let w = do_i2c_wait w;
     let response = replicate (unat TFMINI_PLUS_PACK_LENGTH_SET_BAUD_RATE) (0 :: uint8_t);
     (received, response, w) \<leftarrow> receive response TFMINI_PLUS_PACK_LENGTH_SET_BAUD_RATE w;
     if received then do {
       a0 \<leftarrow> load argument 0;
       r3 \<leftarrow> load response 3;
       if a0 = r3 then do {
         a1 \<leftarrow> load argument 1;
         r4 \<leftarrow> load response 4;
         if a1 = r4 then do {
           a2 \<leftarrow> load argument 2;
           r5 \<leftarrow> load response 5;
           if a2 = r5 then do {
             a3 \<leftarrow> load argument 3;
             r6 \<leftarrow> load response 6;
             Some (if a3 = r6 then True else result, w)
           } else Some (result, w)
         } else Some (result, w)
       } else Some (result, w)
     } else Some (result, w)
   }"

text \<open>
  \<^verbatim>\<open>(uint8_t*)&format\<close> with a packet length of 5 sends the first byte of the enum object,
  its low byte; \<^verbatim>\<open>format == response[3]\<close> compares the values as integers.
\<close>

definition set_output_format ::
  "TFMINI_PLUS_OUTPUT_FORMAT \<Rightarrow> TFminiPlus \<Rightarrow> (bool \<times> TFminiPlus) option" where
  "set_output_format format w = do {
     let result = False;
     (_, w) \<leftarrow> send_command TFMINI_PLUS_SET_OUTPUT_FORMAT
                 [word_of_int (output_format_value format)]
                 TFMINI_PLUS_PACK_LENGTH_SET_OUTPUT_FORMAT w;
     let w = do_i2c_wait w;
     let response = replicate (unat TFMINI_PLUS_PACK_LENGTH_SET_OUTPUT_FORMAT) (0 :: uint8_t);
     (received, response, w) \<leftarrow> receive response TFMINI_PLUS_PACK_LENGTH_SET_OUTPUT_FORMAT w;
     if received then do {
       r3 \<leftarrow> load response 3;
       Some (if output_format_value format = uint r3 then True else result, w)
     } else Some (result, w)
   }"

definition read_data_response ::
  "tfminiplus_data_t \<Rightarrow> TFminiPlus \<Rightarrow> (bool \<times> tfminiplus_data_t \<times> TFminiPlus) option" where
  "read_data_response data w = do {
     let response = replicate (unat TFMINI_PLUS_PACK_LENGTH_DATA_RESPONSE) (0 :: uint8_t);
     (result, response, w) \<leftarrow>
        (if m_communications_mode w = TFMINI_PLUS_UART
         then uart_receive_data response TFMINI_PLUS_PACK_LENGTH_DATA_RESPONSE w
         else receive response TFMINI_PLUS_PACK_LENGTH_DATA_RESPONSE w);
     if result then do {
       r2 \<leftarrow> load response 2;
       r3 \<leftarrow> load response 3;
       r4 \<leftarrow> load response 4;
       r5 \<leftarrow> load response 5;
       r6 \<leftarrow> load response 6;
       r7 \<leftarrow> load response 7;
       Some (result,
             data\<lparr>distance := word_of_int (uint r2 + push_bit 8 (uint r3)),
                  strength := word_of_int (uint r4 + push_bit 8 (uint r5)),
                  temperature := word_of_int (uint r6 + push_bit 8 (uint r7))\<rparr>,
             w)
     } else Some (result, data, w)
   }"

definition read_manual_reading ::
  "tfminiplus_data_t \<Rightarrow> TFminiPlus \<Rightarrow> (bool \<times> tfminiplus_data_t \<times> TFminiPlus) option" where
  "read_manual_reading data w = do {
     (_, w) \<leftarrow> send_command0 TFMINI_PLUS_TRIGGER_DETECTION w;
     let w = do_i2c_wait w;
     read_data_response data w
   }"

definition read_data ::
  "tfminiplus_data_t \<Rightarrow> bool \<Rightarrow> TFminiPlus \<Rightarrow> (bool \<times> tfminiplus_data_t \<times> TFminiPlus) option" where
  "read_data data in_mm_format w = do {
     w \<leftarrow> (if m_communications_mode w = TFMINI_PLUS_I2C
           then do {
             (_, w) \<leftarrow> send_command TFMINI_PLUS_GET_DATA [if in_mm_format then 1 else 0]
                         TFMINI_PLUS_PACK_LENGTH_GET_DATA w;
             Some w
           }
           else Some w);
     read_data_response data w
   }"

text \<open>
  \<^verbatim>\<open>set_io_mode\<close> and \<^verbatim>\<open>set_communication_interface\<close> are declared \<^verbatim>\<open>bool\<close> and have no
  \<^verbatim>\<open>return\<close> statement: only their effect is modelled.
\<close>

definition set_io_mode ::
  "tfminiplus_mode_t \<Rightarrow> uint16_t \<Rightarrow> uint16_t \<Rightarrow> TFminiPlus \<Rightarrow> TFminiPlus option" where
  "set_io_mode mode critical_distance hysteresis w = do {
     let arguments = [word_of_int (mode_value mode),
                      ucast critical_distance,
                      ucast (drop_bit 8 critical_distance),
                      ucast hysteresis,
                      ucast (drop_bit 8 hysteresis)];
     (_, w) \<leftarrow> send_command TFMINI_PLUS_SET_IO_MODE arguments
                 TFMINI_PLUS_PACK_LENGTH_SET_IO_MODE w;
     Some w
   }"

definition save_settings :: "TFminiPlus \<Rightarrow> (bool \<times> TFminiPlus) option" where
  "save_settings w = do {
     let result = False;
     (_, w) \<leftarrow> send_command0 TFMINI_PLUS_SAVE_SETTINGS w;
     let w = do_i2c_wait w;
     let response = replicate (unat TFMINI_PLUS_PACK_LENGTH_SAVE_SETTINGS_RESPONSE) (0 :: uint8_t);
     (received, response, w) \<leftarrow>
        receive response TFMINI_PLUS_PACK_LENGTH_SAVE_SETTINGS_RESPONSE w;
     if received then do {
       r3 \<leftarrow> load response 3;
       Some (if r3 = 0 then True else result, w)
     } else Some (result, w)
   }"

definition set_communication_interface ::
  "TFMINI_PLUS_COMMUNICATION_MODE \<Rightarrow> TFminiPlus \<Rightarrow> TFminiPlus option" where
  "set_communication_interface mode w = do {
     (_, w) \<leftarrow> send_command TFMINI_PLUS_SET_COMMUNICATION_INTERFACE
                 [word_of_int (communication_mode_value mode)]
                 TFMINI_PLUS_PACK_LENGTH_SET_COMMUNICATION_INTERFACE w;
     (saved, w) \<leftarrow> save_settings w;
     Some (if saved then w\<lparr>m_communications_mode := mode\<rparr> else w)
   }"

definition enable_output :: "bool \<Rightarrow> TFminiPlus \<Rightarrow> (bool \<times> TFminiPlus) option" where
  "enable_output output_enabled w = do {
     let result = False;
     (_, w) \<leftarrow> send_command TFMINI_PLUS_ENABLE_DATA_OUTPUT [if output_enabled then 1 else 0]
                 TFMINI_PLUS_PACK_LENGTH_ENABLE_DATA_OUTPUT w;
     let w = do_i2c_wait w;
     let response = replicate (unat TFMINI_PLUS_PACK_LENGTH_ENABLE_DATA_OUTPUT) (0 :: uint8_t);
     (received, response, w) \<leftarrow> receive response TFMINI_PLUS_PACK_LENGTH_ENABLE_DATA_OUTPUT w;
     if received then do {
       r3 \<leftarrow> load response 3;
       Some (if (if output_enabled then 1 else 0) = uint r3 then True else result, w)
     } else Some (result, w)
   }"

definition reset_system :: "TFminiPlus \<Rightarrow> (bool \<times> TFminiPlus) option" where
  "reset_system w = do {
     let result = False;
     (_, w) \<leftarrow> send_command0 TFMINI_PLUS_SYSTEM_RESET w;
     let w = do_i2c_wait w;
     let response = replicate (unat TFMINI_PLUS_PACK_LENGTH_SYSTEM_RESET_RESPONSE) (0 :: uint8_t);
     (received, response, w) \<leftarrow>
        receive response TFMINI_PLUS_PACK_LENGTH_SYSTEM_RESET_RESPONSE w;
     if received then do {
       r3 \<leftarrow> load response 3;
       Some (if r3 = 0 then True else result, w)
     } else Some (result, w)
   }"

definition factory_reset :: "TFminiPlus \<Rightarrow> (bool \<times> TFminiPlus) option" where
  "factory_reset w = do {
     let result = False;
     (_, w) \<leftarrow> send_command0 TFMINI_PLUS_RESTORE_FACTORY_SETTINGS w;
     let w = do_i2c_wait w;
     let response =
       replicate (unat TFMINI_PLUS_PACK_LENGTH_RESTORE_FACTORY_SETTINGS_RESPONSE) (0 :: uint8_t);
     (received, response, w) \<leftarrow>
        receive response TFMINI_PLUS_PACK_LENGTH_RESTORE_FACTORY_SETTINGS_RESPONSE w;
     if received then do {
       r3 \<leftarrow> load response 3;
       Some (if r3 = 0 then True else result, w)
     } else Some (result, w)
   }"

section \<open>Notions used to state the properties\<close>

text \<open>
  The packet \<^verbatim>\<open>send_command\<close> hands to \<^verbatim>\<open>send\<close>, as a list: frame start, length, command
  code, the first \<open>sz - 4\<close> arguments, and as last byte what \<^verbatim>\<open>calculate_checksum(packet,
  size - 1)\<close> returns, the sum of the first \<open>sz - 2\<close> bytes (lemma \<open>send_command_packet\<close>).
\<close>

definition command_packet :: "TFMINI_PLUS_COMMANDS \<Rightarrow> uint8_t list \<Rightarrow> uint8_t \<Rightarrow> uint8_t list" where
  "command_packet command arguments sz =
     (let body = [TFMINI_PLUS_FRAME_START, sz, command_code command]
                   @ take (unat sz - 4) arguments
      in body @ [sum_list (take (unat sz - 2) body)])"

text \<open>
  What \<^verbatim>\<open>receive\<close> accepts once \<open>sz\<close> bytes have arrived (lemmas \<open>receive_i2c_mode\<close> and
  \<open>receive_uart_mode\<close>): the byte at offset 1 is \<open>sz\<close>, and the last byte is what
  \<^verbatim>\<open>calculate_checksum(data, size - 1)\<close> returns, the sum of the first \<open>sz - 2\<close> bytes.
\<close>

definition accepted :: "uint8_t list \<Rightarrow> uint8_t \<Rightarrow> bool" where
  "accepted packet sz \<longleftrightarrow>
     length packet = unat sz \<and> packet ! 1 = sz \<and>
     sum_list (take (unat sz - 2) packet) = packet ! (unat sz - 1)"

text \<open>A driver in bus mode at address \<open>a\<close> whose device will answer \<open>device\<close>.\<close>

definition bus_driver :: "uint8_t \<Rightarrow> uint8_t list \<Rightarrow> TFminiPlus" where
  "bus_driver a device =
     \<lparr>m_communications_mode = TFMINI_PLUS_I2C, m_address = a, stream_rx = [],
      stream_late = [], stream_accept = 0,
      wire_capacity = 32, wire_status = 0, wire_device = device, wire_tx_address = 0,
      wire_tx = [], wire_rx = [], events = []\<rparr>"

text \<open>
  A driver in streaming mode whose stream has buffered \<open>rx\<close>, with nothing to arrive later,
  and takes \<open>accept\<close> bytes a write.
\<close>

definition stream_driver :: "uint8_t list \<Rightarrow> nat \<Rightarrow> TFminiPlus" where
  "stream_driver rx accept =
     \<lparr>m_communications_mode = TFMINI_PLUS_UART, m_address = 0, stream_rx = rx,
      stream_late = [],
      stream_accept = accept, wire_capacity = 32, wire_status = 0, wire_device = [],
      wire_tx_address = 0, wire_tx = [], wire_rx = [], events = []\<rparr>"

text \<open>
  The public operations of the class as values, to state a property of all of them, with
  what each returns: a flag, a flag and the reading, the version struct (\<open>None\<close> when it
  was not filled), or nothing.
\<close>

datatype operation =
    Op_set_i2c_address uint8_t
  | Op_get_version
  | Op_set_framerate tfminiplus_framerate_t
  | Op_set_baudrate tfminiplus_baudrate_t
  | Op_set_output_format TFMINI_PLUS_OUTPUT_FORMAT
  | Op_read_manual_reading tfminiplus_data_t
  | Op_read_data tfminiplus_data_t bool
  | Op_set_io_mode tfminiplus_mode_t uint16_t uint16_t
  | Op_set_communication_interface TFMINI_PLUS_COMMUNICATION_MODE
  | Op_enable_output bool
  | Op_save_settings
  | Op_reset_system
  | Op_factory_reset

datatype outcome =
    Flag bool
  | Reading bool tfminiplus_data_t
  | Version "tfminiplus_version_t option"
  | No_value

fun run :: "operation \<Rightarrow> TFminiPlus \<Rightarrow> (outcome \<times> TFminiPlus) option" where
  "run (Op_set_i2c_address address) w =
     map_option (\<lambda>(result, w'). (Flag result, w')) (set_i2c_address address w)"
| "run Op_get_version w =
     map_option (\<lambda>(version, w'). (Version version, w')) (get_version w)"
| "run (Op_set_framerate framerate) w =
     map_option (\<lambda>(result, w'). (Flag result, w')) (set_framerate framerate w)"
| "run (Op_set_baudrate baudrate) w =
     map_option (\<lambda>(result, w'). (Flag result, w')) (set_baudrate baudrate w)"
| "run (Op_set_output_format format) w =
     map_option (\<lambda>(result, w'). (Flag result, w')) (set_output_format format w)"
| "run (Op_read_manual_reading data) w =
     map_option (\<lambda>(result, data', w'). (Reading result data', w')) (read_manual_reading data w)"
| "run (Op_read_data data in_mm_format) w =
     map_option (\<lambda>(result, data', w'). (Reading result data', w'))
       (read_data data in_mm_format w)"
| "run (Op_set_io_mode mode critical_distance hysteresis) w =
     map_option (\<lambda>w'. (No_value, w')) (set_io_mode mode critical_distance hysteresis w)"
| "run (Op_set_communication_interface mode) w =
     map_option (\<lambda>w'. (No_value, w')) (set_communication_interface mode w)"
| "run (Op_enable_output output_enabled) w =
     map_option (\<lambda>(result, w'). (Flag result, w')) (enable_output output_enabled w)"
| "run Op_save_settings w =
     map_option (\<lambda>(result, w'). (Flag result, w')) (save_settings w)"
| "run Op_reset_system w =
     map_option (\<lambda>(result, w'). (Flag result, w')) (reset_system w)"
| "run Op_factory_reset w =
     map_option (\<lambda>(result, w'). (Flag result, w')) (factory_reset w)"

fun failed :: "outcome \<Rightarrow> bool" where
  "failed (Flag result) = (\<not> result)"
| "failed (Reading result data) = (\<not> result)"
| "failed (Version version) = (version = None)"
| "failed No_value = False"

text \<open>
  The size an operation that returns a result hands to \<^verbatim>\<open>receive\<close> in bus mode.
\<close>

fun response_size :: "operation \<Rightarrow> uint8_t option" where
  "response_size (Op_set_i2c_address address) = Some TFMINI_PLUS_PACK_LENGTH_SET_I2C_ADDRESS"
| "response_size Op_get_version = Some TFMINI_PLUS_PACK_LENGTH_VERSION_RESPONSE"
| "response_size (Op_set_framerate framerate) = Some TFMINI_PLUS_PACK_LENGTH_SET_FRAME_RATE"
| "response_size (Op_set_baudrate baudrate) = Some TFMINI_PLUS_PACK_LENGTH_SET_BAUD_RATE"
| "response_size (Op_set_output_format format) = Some TFMINI_PLUS_PACK_LENGTH_SET_OUTPUT_FORMAT"
| "response_size (Op_read_manual_reading data) = Some TFMINI_PLUS_PACK_LENGTH_DATA_RESPONSE"
| "response_size (Op_read_data data in_mm_format) = Some TFMINI_PLUS_PACK_LENGTH_DATA_RESPONSE"
| "response_size (Op_set_io_mode mode critical_distance hysteresis) = None"
| "response_size (Op_set_communication_interface mode) = None"
| "response_size (Op_enable_output output_enabled) =
     Some TFMINI_PLUS_PACK_LENGTH_ENABLE_DATA_OUTPUT"
| "response_size Op_save_settings = Some TFMINI_PLUS_PACK_LENGTH_SAVE_SETTINGS_RESPONSE"
| "response_size Op_reset_system = Some TFMINI_PLUS_PACK_LENGTH_SYSTEM_RESET_RESPONSE"
| "response_size Op_factory_reset =
     Some TFMINI_PLUS_PACK_LENGTH_RESTORE_FACTORY_SETTINGS_RESPONSE"

text \<open>
  The order of send, wait and read in a trace of bus mode. \<open>settled pending es\<close> holds when
  no response is requested from the device (\<^verbatim>\<open>Wire.requestFrom\<close>) while a command is
  pending, that is after a transmission and before a \<^verbatim>\<open>delay\<close> of at least the 100 ms of
  \<^verbatim>\<open>do_i2c_wait\<close>; \<open>pending\<close> says whether a command is pending at the start.
\<close>

fun settled :: "bool \<Rightarrow> event list \<Rightarrow> bool" where
  "settled pending [] = True"
| "settled pending (Ev_wire_transmission a bytes status # es) = settled True es"
| "settled pending (Ev_delay ms # es) = settled (pending \<and> ms < 100) es"
| "settled pending (Ev_wire_requestFrom a quantity # es) = (\<not> pending \<and> settled pending es)"
| "settled pending (Ev_stream_write bytes n # es) = settled pending es"
| "settled pending (Ev_stream_flush # es) = settled pending es"
| "settled pending (Ev_stream_read c # es) = settled pending es"
| "settled pending (Ev_stream_readBytes n bytes # es) = settled pending es"

fun is_delay :: "event \<Rightarrow> bool" where
  "is_delay (Ev_delay ms) = True"
| "is_delay (Ev_stream_write bytes n) = False"
| "is_delay Ev_stream_flush = False"
| "is_delay (Ev_stream_read c) = False"
| "is_delay (Ev_stream_readBytes n bytes) = False"
| "is_delay (Ev_wire_transmission a bytes status) = False"
| "is_delay (Ev_wire_requestFrom a quantity) = False"

fun is_read_data :: "operation \<Rightarrow> bool" where
  "is_read_data (Op_read_data data in_mm_format) = True"
| "is_read_data (Op_set_i2c_address address) = False"
| "is_read_data Op_get_version = False"
| "is_read_data (Op_set_framerate framerate) = False"
| "is_read_data (Op_set_baudrate baudrate) = False"
| "is_read_data (Op_set_output_format format) = False"
| "is_read_data (Op_read_manual_reading data) = False"
| "is_read_data (Op_set_io_mode mode critical_distance hysteresis) = False"
| "is_read_data (Op_set_communication_interface mode) = False"
| "is_read_data (Op_enable_output output_enabled) = False"
| "is_read_data Op_save_settings = False"
| "is_read_data Op_reset_system = False"
| "is_read_data Op_factory_reset = False"

text \<open>
  Garbage that \<^verbatim>\<open>uart_receive_data\<close> gets across: every marker byte 0x59 in it is followed by
  a garbage byte that is not the marker (lemma \<open>markers_paired_iff\<close>). The equations follow
  the loop, which reads a second byte after a marker and one byte otherwise.
\<close>

fun markers_paired :: "uint8_t list \<Rightarrow> bool" where
  "markers_paired [] = True"
| "markers_paired [b] = (b \<noteq> 0x59)"
| "markers_paired (b # c # bs) =
     (if b = 0x59 then c \<noteq> 0x59 \<and> markers_paired bs else markers_paired (c # bs))"

section \<open>Properties\<close>

subsection \<open>Arrays and the checksum\<close>

lemma load_nth [simp]: "i < length buf \<Longrightarrow> load buf (int i) = Some (buf ! i)"
  by (simp add: load_def)

lemma load_beyond [simp]: "length buf \<le> i \<Longrightarrow> load buf (int i) = None"
  by (simp add: load_def)

lemma checksum_loop_sum:
  "bound \<le> length data \<Longrightarrow> i \<le> bound \<Longrightarrow>
   checksum_loop data bound i checksum = Some (checksum + sum_list (drop i (take bound data)))"
proof (induction data bound i checksum rule: checksum_loop.induct)
  case (1 data bound i checksum)
  show ?case
  proof (cases "i < bound")
    case True
    then have il: "i < length data" using "1.prems" by simp
    have d: "drop i (take bound data) = data ! i # drop (Suc i) (take bound data)"
      using True il "1.prems" by (simp add: Cons_nth_drop_Suc [symmetric])
    have "checksum_loop data bound i checksum
            = checksum_loop data bound (i + 1) (checksum + data ! i)"
      using True il by (subst checksum_loop.simps) simp
    also have "\<dots> = Some (checksum + data ! i + sum_list (drop (i + 1) (take bound data)))"
      using "1.IH" [of "data ! i"] True il "1.prems" by simp
    finally show ?thesis by (simp add: d add.assoc)
  next
    case False
    then have "i = bound" using "1.prems" by simp
    then show ?thesis by (subst checksum_loop.simps) simp
  qed
qed

lemma checksum_loop_overrun:
  "length data < bound \<Longrightarrow> i \<le> length data \<Longrightarrow> checksum_loop data bound i checksum = None"
proof (induction data bound i checksum rule: checksum_loop.induct)
  case (1 data bound i checksum)
  show ?case
  proof (cases "i < length data")
    case True
    then show ?thesis
      using "1.IH" [of "data ! i"] "1.prems" by (subst checksum_loop.simps) simp
  next
    case False
    then show ?thesis using "1.prems" by (subst checksum_loop.simps) simp
  qed
qed

lemma unat_ucast_size_t: "unat (ucast (sz :: uint8_t) :: size_t) = unat sz"
  by (simp add: unsigned_ucast_eq take_bit_nat_eq_self_iff)
     (rule less_trans [OF unsigned_less], simp)

lemma ucast_size_t_eq_0: "(ucast (sz :: uint8_t) :: size_t) = 0 \<longleftrightarrow> sz = 0"
  using unat_ucast_size_t [of sz] by (metis unat_eq_zero)

lemma unat_size_t_max: "unat (- 1 :: size_t) = 65535"
  by (simp add: unsigned_minus_1_eq_mask mask_eq_exp_minus_1)

lemma unat_size_minus_1: "sz \<noteq> 0 \<Longrightarrow> unat ((ucast (sz :: uint8_t) :: size_t) - 1) = unat sz - 1"
  by (simp add: unat_minus_one ucast_size_t_eq_0 unat_ucast_size_t)

lemma calculate_checksum_sum:
  "sz \<noteq> 0 \<Longrightarrow> unat sz - 1 \<le> length data \<Longrightarrow>
   calculate_checksum data sz = Some (sum_list (take (unat sz - 1) data))"
  by (simp add: calculate_checksum_def unat_size_minus_1 checksum_loop_sum)

lemma calculate_checksum_zero:
  "length data < 65535 \<Longrightarrow> calculate_checksum data 0 = None"
  by (simp add: calculate_checksum_def checksum_loop_overrun unat_size_t_max)

text \<open>
  C1. The claim: \<^verbatim>\<open>calculate_checksum(bytes, count)\<close> returns the sum modulo 256 of the first
  \<open>count\<close> bytes, and 0 for a count of 0 without reading the array. The loop of the source
  runs while \<^verbatim>\<open>i < size - 1\<close>: on the three bytes 1, 2, 3 with a count of 3 it returns
  1 + 2 = 3 and leaves the third byte out (the sum of the three is 6), and with a count
  of 0 the bound wraps around and the loop reads past the end of the array.
\<close>

theorem calculate_checksum_omits_last_byte:
  "calculate_checksum [1, 2, 3] 3 = Some 3 \<and> calculate_checksum [1, 2, 3] 0 = None"
  by (simp add: calculate_checksum_sum calculate_checksum_zero)

lemma store_nth [simp]: "i < length buf \<Longrightarrow> store buf (int i) v = Some (buf[i := v])"
  by (simp add: store_def)

lemma copy_arguments_take:
  "bound \<le> length arguments \<Longrightarrow> 3 + bound \<le> length packet \<Longrightarrow> i \<le> bound \<Longrightarrow>
   copy_arguments packet arguments bound i
     = Some (take (3 + i) packet @ drop i (take bound arguments) @ drop (3 + bound) packet)"
proof (induction packet arguments bound i rule: copy_arguments.induct)
  case (1 packet arguments bound i)
  show ?case
  proof (cases "i < bound")
    case True
    let ?p = "packet[3 + i := arguments ! i]"
    have il: "i < length arguments" "3 + i < length packet" using True "1.prems" by simp_all
    have st: "store packet (TFMINI_PLUS_MINIMUM_PACKET_SIZE - 1 + int i) (arguments ! i) = Some ?p"
      using il store_nth [of "3 + i" packet "arguments ! i"]
      by (simp add: TFMINI_PLUS_MINIMUM_PACKET_SIZE_def)
    have "copy_arguments packet arguments bound i = copy_arguments ?p arguments bound (i + 1)"
      using True il st by (subst copy_arguments.simps) simp
    also have "\<dots> = Some (take (3 + (i + 1)) ?p @ drop (i + 1) (take bound arguments)
                          @ drop (3 + bound) ?p)"
      using "1.IH" [OF True _ st] True il "1.prems" by simp
    also have "take (3 + (i + 1)) ?p = take (3 + i) packet @ [arguments ! i]"
    proof -
      have "take (Suc (3 + i)) ?p = take (3 + i) packet @ [arguments ! i]"
        using il by (simp only: take_Suc_conv_app_nth length_list_update nth_list_update_eq
                       take_update_cancel order_refl)
      then show ?thesis by (simp add: add.commute)
    qed
    also have "drop (3 + bound) ?p = drop (3 + bound) packet"
      using True by simp
    finally show ?thesis
      using True il "1.prems" by (simp add: Cons_nth_drop_Suc [symmetric])
  next
    case False
    then have "i = bound" using "1.prems" by simp
    then show ?thesis using "1.prems" by (subst copy_arguments.simps) simp
  qed
qed

subsection \<open>Sending\<close>

lemma bytes_sent_eq:
  "(if min (unat sz) a = unat sz then 1 else 0 :: uint8_t) = sz \<longleftrightarrow> sz = 1 \<and> 1 \<le> a"
proof -
  consider "sz = 0" | "sz = 1" | "sz \<noteq> 0" "sz \<noteq> 1" by blast
  then show ?thesis
  proof cases
    case 1
    then show ?thesis by simp
  next
    case 2
    then show ?thesis by (simp add: min_def)
  next
    case 3
    then show ?thesis by (simp split: if_splits)
  qed
qed

lemma send_uart_result:
  "unat sz \<le> length input \<Longrightarrow>
   send_uart input sz w =
     Some (sz = 1 \<and> 1 \<le> stream_accept w,
           w\<lparr>events := events w @ [Ev_stream_write (take (unat sz) input)
                                      (min (unat sz) (stream_accept w)), Ev_stream_flush]\<rparr>)"
  by (simp add: send_uart_def Stream_write_def Stream_flush_def emit_def Let_def bytes_sent_eq
           del: min_less_iff_conj)

lemma send_i2c_result:
  "unat sz \<le> length input \<Longrightarrow>
   send_i2c input sz w =
     Some ((of_nat (min (unat sz) (wire_capacity w)) :: uint8_t) = sz \<and> wire_status w \<noteq> 0,
           w\<lparr>wire_tx_address := m_address w,
             wire_tx := take (min (unat sz) (wire_capacity w)) input,
             events := events w @ [Ev_wire_transmission (m_address w)
                          (take (min (unat sz) (wire_capacity w)) input) (wire_status w)]\<rparr>)"
  by (simp add: send_i2c_def Wire_beginTransmission_def Wire_write_def Wire_endTransmission_def
        emit_def Let_def)

lemma send_uart_mode:
  "m_communications_mode w = TFMINI_PLUS_UART \<Longrightarrow> unat sz \<le> length input \<Longrightarrow>
   send input sz w =
     Some (sz = 1 \<and> 1 \<le> stream_accept w,
           w\<lparr>events := events w @ [Ev_stream_write (take (unat sz) input)
                                      (min (unat sz) (stream_accept w)), Ev_stream_flush]\<rparr>)"
  by (simp add: send_def send_uart_result)

lemma send_i2c_mode:
  "m_communications_mode w = TFMINI_PLUS_I2C \<Longrightarrow> unat sz \<le> length input \<Longrightarrow>
   send input sz w =
     Some ((of_nat (min (unat sz) (wire_capacity w)) :: uint8_t) = sz \<and> wire_status w \<noteq> 0,
           w\<lparr>wire_tx_address := m_address w,
             wire_tx := take (min (unat sz) (wire_capacity w)) input,
             events := events w @ [Ev_wire_transmission (m_address w)
                          (take (min (unat sz) (wire_capacity w)) input) (wire_status w)]\<rparr>)"
  by (simp add: send_def send_i2c_result)

lemma length_command_packet:
  "4 \<le> unat sz \<Longrightarrow> unat sz - 4 \<le> length arguments \<Longrightarrow>
   length (command_packet command arguments sz) = unat sz"
  by (simp add: command_packet_def Let_def)

lemma send_command_packet:
  assumes sz: "4 \<le> unat sz" and args: "unat sz - 4 \<le> length arguments"
  shows "send_command command arguments sz w = send (command_packet command arguments sz) sz w"
proof -
  define k where "k = unat sz - 4"
  have n: "unat sz = Suc (Suc (Suc (Suc k)))"
    using sz by (simp add: k_def)
  let ?h = "[TFMINI_PLUS_FRAME_START, sz, command_code command]"
  let ?body = "?h @ take k arguments"
  have k: "k \<le> length arguments" using args n by simp
  have p3: "(replicate (unat sz) (0 :: uint8_t))
              [0 := TFMINI_PLUS_FRAME_START, 1 := sz, 2 := command_code command]
            = ?h @ replicate (Suc k) 0"
    by (simp add: n)
  have copy: "(if uint sz > TFMINI_PLUS_MINIMUM_PACKET_SIZE
               then copy_arguments (?h @ replicate (Suc k) 0) arguments
                      (nat (uint sz - TFMINI_PLUS_MINIMUM_PACKET_SIZE)) 0
               else Some (?h @ replicate (Suc k) 0)) = Some (?body @ [0])"
  proof (cases "k = 0")
    case True
    then show ?thesis using n by (simp add: TFMINI_PLUS_MINIMUM_PACKET_SIZE_def uint_nat)
  next
    case False
    then have "uint sz > 4" and "nat (uint sz - 4) = k" using n by (simp_all add: uint_nat)
    moreover have "drop k (0 # replicate k (0 :: uint8_t)) = [0]"
    proof -
      have "0 # replicate k (0 :: uint8_t) = replicate k 0 @ [0]"
        by (simp add: replicate_append_same)
      then show ?thesis by simp
    qed
    ultimately show ?thesis
      using k by (simp add: TFMINI_PLUS_MINIMUM_PACKET_SIZE_def copy_arguments_take
                       numeral_3_eq_3)
  qed
  have sz0: "sz \<noteq> 0" and sz1: "sz \<noteq> 1"
    using n by auto
  have nz: "sz - 1 \<noteq> 0"
    using sz1 by simp
  have u1: "unat (sz - 1) = Suc (Suc (Suc k))"
    using n sz0 by (simp add: unat_minus_one)
  have cs: "calculate_checksum (?body @ [0]) (sz - 1) = Some (sum_list (take (Suc (Suc k)) ?body))"
  proof -
    have "calculate_checksum (?body @ [0]) (sz - 1)
            = Some (sum_list (take (unat (sz - 1) - 1) (?body @ [0])))"
      by (rule calculate_checksum_sum) (use nz u1 k in simp_all)
    also have "take (unat (sz - 1) - 1) (?body @ [0]) = take (Suc (Suc k)) ?body"
      unfolding u1 using k by (subst take_append) simp
    finally show ?thesis .
  qed
  have idx: "uint sz - 1 = int (Suc (Suc (Suc k)))" using n by (simp add: uint_nat)
  have st: "store (?body @ [0]) (uint sz - 1) c = Some (?body @ [c])" for c
    unfolding idx using k by (subst store_nth) (simp_all add: min_def list_update_append)
  have cp: "command_packet command arguments sz = ?body @ [sum_list (take (Suc (Suc k)) ?body)]"
    by (simp add: command_packet_def n Let_def)
  have s0: "store (replicate (unat sz) 0) 0 v = Some ((replicate (unat sz) 0)[0 := v])" for v
    using n by (simp add: store_def)
  have s1: "store ((replicate (unat sz) 0)[0 := a]) 1 v = Some ((replicate (unat sz) 0)[0 := a, 1 := v])" for a v
    using n by (simp add: store_def)
  have s2: "store ((replicate (unat sz) 0)[0 := a, 1 := b]) 2 v
              = Some ((replicate (unat sz) 0)[0 := a, 1 := b, 2 := v])" for a b v
    using n by (simp add: store_def)
  show ?thesis
    unfolding send_command_def Let_def s0 s1 s2 bind.bind_lunit p3 copy cs st cp ..
qed

subsection \<open>Receiving\<close>

lemma receive_i2c_loop_result:
  "bytes_read + min (unat sz - bytes_read) (length (wire_rx w)) \<le> length output \<Longrightarrow>
   receive_i2c_loop output sz bytes_read w =
     Some (bytes_read + min (unat sz - bytes_read) (length (wire_rx w)),
           take bytes_read output
             @ take (min (unat sz - bytes_read) (length (wire_rx w))) (wire_rx w)
             @ drop (bytes_read + min (unat sz - bytes_read) (length (wire_rx w))) output,
           w\<lparr>wire_rx := drop (min (unat sz - bytes_read) (length (wire_rx w))) (wire_rx w)\<rparr>)"
proof (induction "output" sz bytes_read w rule: receive_i2c_loop.induct)
  case (1 outp sz bytes_read w)
  show ?case
  proof (cases "bytes_read < unat sz \<and> Wire_available w \<noteq> 0")
    case False
    then have "min (unat sz - bytes_read) (length (wire_rx w)) = 0"
      by (auto simp: Wire_available_def)
    then show ?thesis
      using False by (subst receive_i2c_loop.simps) auto
  next
    case True
    then obtain b bs where rx: "wire_rx w = b # bs"
      by (cases "wire_rx w") (auto simp: Wire_available_def)
    let ?w = "w\<lparr>wire_rx := bs\<rparr>"
    let ?out = "outp[bytes_read := b]"
    let ?k = "min (unat sz - (bytes_read + 1)) (length bs)"
    have rd: "Wire_read w = (uint b, ?w)"
      by (simp add: Wire_read_def rx)
    have km: "min (unat sz - bytes_read) (length (wire_rx w)) = Suc ?k"
      using True by (simp add: rx min_def; arith)
    have inb: "bytes_read < length outp"
      using "1.prems" km by simp
    have st: "store outp (int bytes_read) (word_of_int (uint b)) = Some ?out"
      using inb by simp
    have step: "receive_i2c_loop outp sz bytes_read w
                  = receive_i2c_loop ?out sz (bytes_read + 1) ?w"
      using True by (subst receive_i2c_loop.simps) (simp add: rd inb)
    have ih: "receive_i2c_loop ?out sz (bytes_read + 1) ?w =
                Some (bytes_read + 1 + ?k,
                      take (bytes_read + 1) ?out @ take ?k bs @ drop (bytes_read + 1 + ?k) ?out,
                      ?w\<lparr>wire_rx := drop ?k bs\<rparr>)"
      using "1.IH" [OF True refl rd [symmetric] st] "1.prems" km by simp
    have t: "take (bytes_read + 1) ?out = take bytes_read outp @ [b]"
      using inb by (simp add: take_Suc_conv_app_nth)
    have d: "drop (bytes_read + 1 + ?k) ?out = drop (bytes_read + 1 + ?k) outp"
      by simp
    show ?thesis
      unfolding step ih t d km by (simp add: rx)
  qed
qed

lemma compare_checksum_sum:
  assumes "2 \<le> unat sz" and "unat sz \<le> length data"
  shows "compare_checksum data sz
           = Some (sum_list (take (unat sz - 2) data) = data ! (unat sz - 1))"
proof -
  have sz0: "sz \<noteq> 0" and sz1: "sz \<noteq> 1"
    using assms(1) by auto
  have nz: "sz - 1 \<noteq> 0"
    using sz1 by simp
  have u1: "unat (sz - 1) = unat sz - 1"
    using sz0 by (simp add: unat_minus_one)
  have e: "unat sz - 2 = unat (sz - 1) - 1"
    using u1 by simp
  have cs: "calculate_checksum data (sz - 1) = Some (sum_list (take (unat sz - 2) data))"
  proof -
    have "unat (sz - 1) - 1 \<le> length data"
      unfolding u1 using assms by arith
    then show ?thesis
      unfolding e by (rule calculate_checksum_sum [OF nz])
  qed
  have idx: "uint sz - 1 = int (unat sz - 1)"
    using assms(1) by (simp add: of_nat_diff)
  have ld: "load data (uint sz - 1) = Some (data ! (unat sz - 1))"
    unfolding idx by (rule load_nth) (use assms in arith)
  show ?thesis
    by (simp add: compare_checksum_def cs ld)
qed

lemma of_nat_eq_size:
  "n \<le> unat (sz :: uint8_t) \<Longrightarrow> (of_nat n :: uint8_t) = sz \<longleftrightarrow> n = unat sz"
proof -
  assume "n \<le> unat sz"
  then have "n < 2 ^ LENGTH(8)"
    using unsigned_less [of sz, where 'a = nat] by (simp del: unsigned_less)
  then have "unat (of_nat n :: uint8_t) = n"
    by (simp add: unat_of_nat)
  then show ?thesis
    by (simp add: word_unat_eq_iff)
qed

lemma take_min_length [simp]: "take (min (length xs) n) xs = take n xs"
  by (simp add: min_def)

lemma receive_i2c_result:
  assumes "unat sz \<le> length outp"
  shows "receive_i2c outp sz w =
     Some (length (take (unat sz) (wire_device w)) = unat sz,
           take (unat sz) (wire_device w) @ drop (length (take (unat sz) (wire_device w))) outp,
           w\<lparr>wire_rx := [],
             wire_device := drop (unat sz) (wire_device w),
             events := events w @ [Ev_wire_requestFrom (m_address w) sz]\<rparr>)"
proof -
  let ?got = "take (unat sz) (wire_device w)"
  let ?w = "Wire_requestFrom (m_address w) sz w"
  have rx: "wire_rx ?w = ?got"
    by (simp add: Wire_requestFrom_def emit_def)
  have m: "min (unat sz - 0) (length (wire_rx ?w)) = length ?got"
    by (simp add: rx)
  have "0 + min (unat sz - 0) (length (wire_rx ?w)) \<le> length outp"
    unfolding m using assms by simp
  from receive_i2c_loop_result [OF this]
  have "receive_i2c_loop outp sz 0 ?w =
          Some (length ?got, ?got @ drop (length ?got) outp, ?w\<lparr>wire_rx := []\<rparr>)"
    unfolding m by (simp add: rx)
  then show ?thesis
    by (simp add: receive_i2c_def Wire_requestFrom_def emit_def)
qed

lemma receive_uart_result:
  assumes "unat sz \<le> length outp"
  shows "receive_uart outp sz w =
     Some (length (take (unat sz) (stream_rx w @ stream_late w)) = unat sz,
           take (unat sz) (stream_rx w @ stream_late w)
             @ drop (length (take (unat sz) (stream_rx w @ stream_late w))) outp,
           w\<lparr>stream_rx := drop (unat sz) (stream_rx w),
             stream_late := drop (unat sz - length (stream_rx w)) (stream_late w),
             events := events w @ [Ev_stream_readBytes (unat sz)
                                      (take (unat sz) (stream_rx w @ stream_late w))]\<rparr>)"
proof -
  let ?got = "take (unat sz) (stream_rx w @ stream_late w)"
  have le: "length ?got \<le> unat sz"
    by simp
  then have "length ?got \<le> length outp"
    using assms by (rule order_trans)
  then have st: "store_bytes outp 0 ?got = Some (?got @ drop (length ?got) outp)"
    unfolding store_bytes_def by (simp del: length_take take_append)
  have eq: "(of_nat (length ?got) :: uint8_t) = sz \<longleftrightarrow> length ?got = unat sz"
    using le by (rule of_nat_eq_size)
  show ?thesis
    unfolding receive_uart_def Stream_readBytes_def Let_def st
    by (simp add: eq emit_def del: length_take take_append)
qed

lemma validate_full:
  assumes "2 \<le> unat sz" and "length got = unat sz"
  shows "load got TFMINI_PLUS_PACKET_POS_LENGTH = Some (got ! 1)"
    and "compare_checksum got sz
           = Some (sum_list (take (unat sz - 2) got) = got ! (unat sz - 1))"
proof -
  show "load got TFMINI_PLUS_PACKET_POS_LENGTH = Some (got ! 1)"
    using load_nth [of 1 got] assms by (simp add: TFMINI_PLUS_PACKET_POS_LENGTH_def)
  show "compare_checksum got sz
          = Some (sum_list (take (unat sz - 2) got) = got ! (unat sz - 1))"
    by (rule compare_checksum_sum) (use assms in simp_all)
qed

lemma receive_i2c_mode:
  assumes "m_communications_mode w = TFMINI_PLUS_I2C" and "2 \<le> unat sz"
    and "length outp = unat sz"
  shows "receive outp sz w =
     Some (accepted (take (unat sz) (wire_device w)) sz,
           take (unat sz) (wire_device w) @ drop (length (take (unat sz) (wire_device w))) outp,
           w\<lparr>wire_rx := [],
             wire_device := drop (unat sz) (wire_device w),
             events := events w @ [Ev_wire_requestFrom (m_address w) sz]\<rparr>)"
proof -
  let ?got = "take (unat sz) (wire_device w)"
  let ?w = "w\<lparr>wire_rx := [], wire_device := drop (unat sz) (wire_device w),
               events := events w @ [Ev_wire_requestFrom (m_address w) sz]\<rparr>"
  have r: "receive_i2c outp sz w =
             Some (length ?got = unat sz, ?got @ drop (length ?got) outp, ?w)"
    by (rule receive_i2c_result) (use assms in simp)
  show ?thesis
  proof (cases "length ?got = unat sz")
    case True
    have full: "drop (unat sz) outp = []"
      using assms(3) by simp
    from r have r': "receive_i2c outp sz w = Some (True, ?got, ?w)"
      by (simp only: True full append_Nil2 simp_thms)
    show ?thesis
      unfolding receive_def Let_def True full append_Nil2
      using True
      by (auto simp: assms(1) r' validate_full [OF assms(2) True] accepted_def
               simp del: length_take)
  next
    case False
    from r have r': "receive_i2c outp sz w = Some (False, ?got @ drop (length ?got) outp, ?w)"
      by (simp only: False simp_thms)
    show ?thesis
      unfolding receive_def Let_def
      using False by (simp add: assms(1) r' accepted_def del: length_take)
  qed
qed

lemma receive_uart_mode:
  assumes "m_communications_mode w = TFMINI_PLUS_UART" and "2 \<le> unat sz"
    and "length outp = unat sz"
  shows "receive outp sz w =
     Some (accepted (take (unat sz) (stream_rx w @ stream_late w)) sz,
           take (unat sz) (stream_rx w @ stream_late w)
             @ drop (length (take (unat sz) (stream_rx w @ stream_late w))) outp,
           w\<lparr>stream_rx := drop (unat sz) (stream_rx w),
             stream_late := drop (unat sz - length (stream_rx w)) (stream_late w),
             events := events w @ [Ev_stream_readBytes (unat sz)
                                      (take (unat sz) (stream_rx w @ stream_late w))]\<rparr>)"
proof -
  let ?got = "take (unat sz) (stream_rx w @ stream_late w)"
  let ?w = "w\<lparr>stream_rx := drop (unat sz) (stream_rx w),
               stream_late := drop (unat sz - length (stream_rx w)) (stream_late w),
               events := events w @ [Ev_stream_readBytes (unat sz) ?got]\<rparr>"
  have r: "receive_uart outp sz w =
             Some (length ?got = unat sz, ?got @ drop (length ?got) outp, ?w)"
    by (rule receive_uart_result) (use assms in simp)
  show ?thesis
  proof (cases "length ?got = unat sz")
    case True
    have full: "drop (unat sz) outp = []"
      using assms(3) by simp
    from r have r': "receive_uart outp sz w = Some (True, ?got, ?w)"
      by (simp only: True full append_Nil2 simp_thms)
    show ?thesis
      unfolding receive_def Let_def True full append_Nil2
      using True
      by (auto simp: assms(1) r' validate_full [OF assms(2) True] accepted_def
               simp del: length_take take_append)
  next
    case False
    from r have r': "receive_uart outp sz w = Some (False, ?got @ drop (length ?got) outp, ?w)"
      by (simp only: False simp_thms)
    show ?thesis
      unfolding receive_def Let_def
      using False by (simp add: assms(1) r' accepted_def del: length_take take_append)
  qed
qed

subsection \<open>Claims settled at a concrete input\<close>

text \<open>
  C2. The claim: the last byte of every packet built by \<^verbatim>\<open>send_command\<close> is the sum modulo
  256 of all \<open>size - 1\<close> bytes before it. The source fills the last byte with
  \<^verbatim>\<open>calculate_checksum(packet, size - 1)\<close>, whose loop stops one byte early: for the
  get-version command in bus mode the driver transmits 5A 04 01 5E, and the three bytes
  before the checksum add up to 5F.
\<close>

theorem send_command_checksum_omits_last_byte:
  "map_option (events \<circ> snd) (send_command0 TFMINI_PLUS_GET_VERSION (bus_driver 0x10 []))
     = Some [Ev_wire_transmission 0x10 [0x5A, 0x04, 0x01, 0x5E] 0]
   \<and> sum_list [0x5A, 0x04, 0x01 :: uint8_t] = 0x5F"
  by (simp add: send_command0_def send_command_packet send_i2c_mode command_packet_def
        bus_driver_def header_defs)

text \<open>
  C3. The claim: a data read over the stream fails when the checksum byte of the data
  packet is not the sum of the bytes before it. \<^verbatim>\<open>read_data_response\<close> calls
  \<^verbatim>\<open>uart_receive_data\<close> in streaming mode, which only counts the bytes: on the packet
  59 59 01 00 02 00 03 00 FF, whose bytes before the last add up to B8, the read returns
  true with distance 1, strength 2 and temperature 3.
\<close>

theorem read_data_uart_returns_reading_with_wrong_checksum:
  "read_data \<lparr>distance = 0, strength = 0, temperature = 0\<rparr> False
     (stream_driver [0x59, 0x59, 0x01, 0x00, 0x02, 0x00, 0x03, 0x00, 0xFF] 64)
     = Some (True, \<lparr>distance = 1, strength = 2, temperature = 3\<rparr>,
             (stream_driver [] 64)
               \<lparr>events := [Ev_stream_read 0x59, Ev_stream_read 0x59,
                           Ev_stream_readBytes 7 [0x01, 0x00, 0x02, 0x00, 0x03, 0x00, 0xFF]]\<rparr>)
   \<and> sum_list [0x59, 0x59, 0x01, 0x00, 0x02, 0x00, 0x03, 0x00 :: uint8_t] = 0xB8"
  by code_simp

text \<open>
  C6. The claim: in streaming mode the send step reports success exactly when the stream
  wrote all \<open>size\<close> bytes. \<^verbatim>\<open>send_uart\<close> stores the result of the comparison
  \<^verbatim>\<open>write(input, size) == size\<close> in \<^verbatim>\<open>bytes_sent\<close> and compares that 0 or 1 with \<open>size\<close>
  again: a packet of 4 bytes that the stream takes whole is reported as not sent.
\<close>

theorem send_uart_reports_failure_on_full_write:
  "send_uart [0x5A, 0x04, 0x01, 0x5F] 4 (stream_driver [] 64)
     = Some (False, (stream_driver [] 64)
               \<lparr>events := [Ev_stream_write [0x5A, 0x04, 0x01, 0x5F] 4, Ev_stream_flush]\<rparr>)"
  by (simp add: send_uart_result stream_driver_def)

text \<open>
  C7. The claim: \<^verbatim>\<open>set_framerate(100)\<close> in bus mode transmits 5A 08 03 64 00 and the
  checksum, and returns success when the device echoes 64 00 in bytes 3 and 4. The source
  computes the low byte as \<^verbatim>\<open>framerate | 0xFF\<close>, which is FF for every frame rate: the
  driver transmits 5A 06 03 FF 00 62 and compares the echo with FF 00, so it returns false
  on the echo 64 00 of the frame 5A 06 03 64 00 C7, which \<^verbatim>\<open>receive\<close> accepts (0xC7 is
  the sum of the five bytes before it, and of the first four, which is what
  \<^verbatim>\<open>compare_checksum\<close> computes). It returns false as well on the same frame with the last
  byte 0x63, which \<^verbatim>\<open>receive\<close> refuses.
\<close>

theorem set_framerate_sends_0xFF_as_low_byte:
  "set_framerate TFMINI_PLUS_FRAMERATE_100HZ
     (bus_driver 0x10 [0x5A, 0x06, 0x03, 0x64, 0x00, 0xC7])
     = Some (False, (bus_driver 0x10 [])
          \<lparr>wire_tx_address := 0x10, wire_tx := [0x5A, 0x06, 0x03, 0xFF, 0x00, 0x62],
            events := [Ev_wire_transmission 0x10 [0x5A, 0x06, 0x03, 0xFF, 0x00, 0x62] 0,
                       Ev_delay 100, Ev_wire_requestFrom 0x10 6]\<rparr>)
   \<and> set_framerate TFMINI_PLUS_FRAMERATE_100HZ
     (bus_driver 0x10 [0x5A, 0x06, 0x03, 0x64, 0x00, 0x63])
     = Some (False, (bus_driver 0x10 [])
          \<lparr>wire_tx_address := 0x10, wire_tx := [0x5A, 0x06, 0x03, 0xFF, 0x00, 0x62],
            events := [Ev_wire_transmission 0x10 [0x5A, 0x06, 0x03, 0xFF, 0x00, 0x62] 0,
                       Ev_delay 100, Ev_wire_requestFrom 0x10 6]\<rparr>)"
  by code_simp

subsection \<open>Resynchronization\<close>

lemma markers_paired_iff:
  "markers_paired g \<longleftrightarrow>
     (\<forall>i<length g. g ! i = 0x59 \<longrightarrow> Suc i < length g \<and> g ! Suc i \<noteq> 0x59)"
proof (induction g rule: markers_paired.induct)
  case 1
  then show ?case by simp
next
  case (2 b)
  then show ?case by simp
next
  case (3 b c bs)
  show ?case
  proof (cases "b = 0x59")
    case True
    then show ?thesis
      using "3.IH"(1) by (auto simp: All_less_Suc2)
  next
    case False
    then show ?thesis
      using "3.IH"(2) by (auto simp: All_less_Suc2)
  qed
qed

lemma no_marker_paired: "0x59 \<notin> set g \<Longrightarrow> markers_paired g"
  by (induction g rule: markers_paired.induct) auto

lemma uint_marker: "uint (g :: uint8_t) = TFMINI_PLUS_RESPONSE_FRAME_HEADER \<longleftrightarrow> g = 0x59"
proof
  assume "uint g = TFMINI_PLUS_RESPONSE_FRAME_HEADER"
  then have "word_of_int (uint g) = (0x59 :: uint8_t)"
    by (simp add: TFMINI_PLUS_RESPONSE_FRAME_HEADER_def)
  then show "g = 0x59" by simp
next
  assume "g = 0x59"
  then show "uint g = TFMINI_PLUS_RESPONSE_FRAME_HEADER"
    by (simp add: TFMINI_PLUS_RESPONSE_FRAME_HEADER_def)
qed

lemma uart_receive_data_loop_other:
  assumes "stream_rx w = g # r" and "g \<noteq> 0x59"
  shows "uart_receive_data_loop outp False w =
           uart_receive_data_loop outp False
             (w\<lparr>stream_rx := r, events := events w @ [Ev_stream_read (uint g)]\<rparr>)"
proof -
  have "Stream_read w = (uint g, w\<lparr>stream_rx := r, events := events w @ [Ev_stream_read (uint g)]\<rparr>)"
    using assms(1) by (simp add: Stream_read_def emit_def)
  moreover have "Stream_available w \<noteq> 0"
    using assms(1) by (simp add: Stream_available_def)
  ultimately show ?thesis
    using assms(2) by (subst uart_receive_data_loop.simps) (simp add: uint_marker)
qed

lemma uart_receive_data_loop_pair:
  assumes "stream_rx w = 0x59 # c # r" and "c \<noteq> 0x59"
  shows "uart_receive_data_loop outp False w =
           uart_receive_data_loop outp False
             (w\<lparr>stream_rx := r,
                events := events w @ [Ev_stream_read 0x59, Ev_stream_read (uint c)]\<rparr>)"
proof -
  let ?w1 = "w\<lparr>stream_rx := c # r, events := events w @ [Ev_stream_read 0x59]\<rparr>"
  let ?w2 = "w\<lparr>stream_rx := r,
               events := events w @ [Ev_stream_read 0x59, Ev_stream_read (uint c)]\<rparr>"
  have r1: "Stream_read w = (TFMINI_PLUS_RESPONSE_FRAME_HEADER, ?w1)"
    using assms(1) by (simp add: Stream_read_def emit_def TFMINI_PLUS_RESPONSE_FRAME_HEADER_def)
  have r2: "Stream_read ?w1 = (uint c, ?w2)"
    by (simp add: Stream_read_def emit_def)
  have "Stream_available w \<noteq> 0"
    using assms(1) by (simp add: Stream_available_def)
  then show ?thesis
    using assms(2) by (subst uart_receive_data_loop.simps) (simp add: r1 r2 uint_marker)
qed

lemma uart_receive_data_loop_skip:
  "markers_paired garbage \<Longrightarrow> stream_rx w = garbage @ rest \<Longrightarrow>
   uart_receive_data_loop outp False w =
     uart_receive_data_loop outp False
       (w\<lparr>stream_rx := rest,
          events := events w @ map (\<lambda>b. Ev_stream_read (uint b)) garbage\<rparr>)"
proof (induction garbage arbitrary: w rule: markers_paired.induct)
  case 1
  then have "w\<lparr>stream_rx := rest, events := events w @ []\<rparr> = w"
    by simp
  then show ?case by simp
next
  case (2 b)
  then show ?case
    using uart_receive_data_loop_other [of w b rest outp] by simp
next
  case (3 b c bs)
  show ?case
  proof (cases "b = 0x59")
    case True
    let ?w2 = "w\<lparr>stream_rx := bs @ rest,
                 events := events w @ [Ev_stream_read 0x59, Ev_stream_read (uint c)]\<rparr>"
    have c: "c \<noteq> 0x59" and bs: "markers_paired bs"
      using "3.prems"(1) True by simp_all
    have "uart_receive_data_loop outp False w = uart_receive_data_loop outp False ?w2"
      using uart_receive_data_loop_pair [of w c "bs @ rest" outp] "3.prems"(2) True c by simp
    also have "\<dots> = uart_receive_data_loop outp False
        (?w2\<lparr>stream_rx := rest,
             events := events ?w2 @ map (\<lambda>b. Ev_stream_read (uint b)) bs\<rparr>)"
      by (rule "3.IH"(1) [OF True bs]) simp
    finally show ?thesis
      using True by simp
  next
    case False
    let ?w1 = "w\<lparr>stream_rx := c # bs @ rest,
                 events := events w @ [Ev_stream_read (uint b)]\<rparr>"
    have cbs: "markers_paired (c # bs)"
      using "3.prems"(1) False by simp
    have "uart_receive_data_loop outp False w = uart_receive_data_loop outp False ?w1"
      using uart_receive_data_loop_other [of w b "c # bs @ rest" outp] "3.prems"(2) False
      by simp
    also have "\<dots> = uart_receive_data_loop outp False
        (?w1\<lparr>stream_rx := rest,
             events := events ?w1 @ map (\<lambda>b. Ev_stream_read (uint b)) (c # bs)\<rparr>)"
      by (rule "3.IH"(2) [OF False cbs]) simp
    finally show ?thesis
      by simp
  qed
qed

lemma uart_receive_data_loop_found:
  assumes "stream_rx w = 0x59 # 0x59 # rest" and "2 \<le> length outp"
  shows "uart_receive_data_loop outp False w =
           Some (outp[0 := 0x59, 1 := 0x59], True,
                 w\<lparr>stream_rx := rest,
                   events := events w @ [Ev_stream_read 0x59, Ev_stream_read 0x59]\<rparr>)"
proof -
  let ?w1 = "emit (Ev_stream_read 0x59) (w\<lparr>stream_rx := 0x59 # rest\<rparr>)"
  let ?w2 = "emit (Ev_stream_read 0x59) (?w1\<lparr>stream_rx := rest\<rparr>)"
  have rd1: "Stream_read w = (0x59, ?w1)"
    using assms(1) by (simp add: Stream_read_def)
  have rd2: "Stream_read ?w1 = (0x59, ?w2)"
    by (simp add: Stream_read_def emit_def)
  have av: "Stream_available w \<noteq> 0"
    using assms(1) by (simp add: Stream_available_def)
  have st: "store outp 0 0x59 = Some (outp[0 := 0x59])"
           "store (outp[0 := 0x59]) 1 0x59 = Some (outp[0 := 0x59, 1 := 0x59])"
    using assms(2) by (auto simp: store_def)
  have stop: "uart_receive_data_loop buf True w' = Some (buf, True, w')" for buf w'
    by (subst uart_receive_data_loop.simps) simp
  have "uart_receive_data_loop outp False w
          = Some (outp[0 := 0x59, 1 := 0x59], True, ?w2)"
    using av
    by (subst uart_receive_data_loop.simps)
       (simp add: rd1 rd2 st stop TFMINI_PLUS_RESPONSE_FRAME_HEADER_def)
  then show ?thesis
    by (simp add: emit_def)
qed

lemma Stream_readBytes_result:
  assumes "got = take n (stream_rx w @ stream_late w)" and "off + length got \<le> length buffer"
  shows "Stream_readBytes buffer off n w =
     Some (length got,
           (if got = [] then buffer
            else take off buffer @ got @ drop (off + length got) buffer),
           emit (Ev_stream_readBytes n got)
             (w\<lparr>stream_rx := drop n (stream_rx w),
                stream_late := drop (n - length (stream_rx w)) (stream_late w)\<rparr>))"
  using assms(2)
  unfolding Stream_readBytes_def Let_def assms(1) [symmetric] store_bytes_def
  by simp

lemma unat_size_minus_2:
  "2 \<le> unat sz \<Longrightarrow> unat ((ucast (sz :: uint8_t) :: size_t) - 2) = unat sz - 2"
proof -
  assume "2 \<le> unat sz"
  then have "(2 :: size_t) \<le> ucast sz"
    by (simp add: word_le_nat_alt unat_ucast_size_t)
  then have "unat ((ucast sz :: size_t) - 2) = unat (ucast sz :: size_t) - unat (2 :: size_t)"
    by (rule unat_sub)
  then show ?thesis
    by (simp add: unat_ucast_size_t)
qed

text \<open>
  C4, as amended. The claim: for garbage bytes followed by a data packet that begins with
  the two markers 0x59 0x59, \<^verbatim>\<open>uart_receive_data\<close> discards the garbage one byte at a time,
  returns the packet and reads nothing beyond it. This holds under two conditions. First,
  the garbage and the two markers are buffered when the routine is called (the rest of
  the packet, and what follows it, may be buffered or arrive while \<^verbatim>\<open>readBytes\<close> waits):
  the loop then meets the markers before \<^verbatim>\<open>available()\<close> can be 0, whenever further bytes
  arrive. Second, every garbage byte that is the marker 0x59 is followed by a garbage byte
  that is not (in particular when no garbage byte is the marker). Then the routine makes
  one \<^verbatim>\<open>read()\<close> for each garbage byte, two for the markers and one \<^verbatim>\<open>readBytes\<close> for the
  \<open>size - 2\<close> bytes that follow, returns true with the packet in the buffer, and leaves in
  the stream what came after the packet.
\<close>

theorem uart_receive_data_resynchronizes:
  assumes stream: "stream_rx w @ stream_late w = garbage @ packet @ rest"
    and buffered: "length garbage + 2 \<le> length (stream_rx w)"
    and garbage: "\<forall>i<length garbage. garbage ! i = 0x59 \<longrightarrow>
                    Suc i < length garbage \<and> garbage ! Suc i \<noteq> 0x59"
    and len: "length packet = unat sz"
    and marker: "take 2 packet = [0x59, 0x59]"
    and outp: "length outp = unat sz"
  shows "uart_receive_data outp sz w =
           Some (True, packet,
                 w\<lparr>stream_rx := drop (length garbage + unat sz) (stream_rx w),
                   stream_late := drop (length garbage + unat sz - length (stream_rx w))
                                    (stream_late w),
                   events := events w @ map (\<lambda>b. Ev_stream_read (uint b)) garbage
                     @ [Ev_stream_read 0x59, Ev_stream_read 0x59,
                        Ev_stream_readBytes (unat sz - 2) (drop 2 packet)]\<rparr>)
         \<and> drop (length garbage + unat sz) (stream_rx w)
             @ drop (length garbage + unat sz - length (stream_rx w)) (stream_late w) = rest"
proof -
  define body where "body = drop 2 packet"
  define b where "b = drop (length garbage + 2) (stream_rx w)"
  define g where "g = length garbage"
  let ?w1 = "w\<lparr>stream_rx := 0x59 # 0x59 # b,
               events := events w @ map (\<lambda>b. Ev_stream_read (uint b)) garbage\<rparr>"
  let ?w2 = "?w1\<lparr>stream_rx := b,
                 events := events ?w1 @ [Ev_stream_read 0x59, Ev_stream_read 0x59]\<rparr>"
  let ?out = "outp[0 := 0x59, 1 := 0x59]"
  have p: "packet = 0x59 # 0x59 # body"
    unfolding body_def using marker by (metis append_take_drop_id append_Cons append_Nil)
  have sz2: "2 \<le> unat sz"
    using len p by (metis length_Cons Suc_le_mono le0 numeral_2_eq_2)
  have lb: "length body = unat sz - 2"
    using len by (simp add: body_def)
  have head: "take (length garbage + 2) (stream_rx w) = garbage @ [0x59, 0x59]"
  proof -
    have "take (length garbage + 2) (stream_rx w)
            = take (length garbage + 2) (stream_rx w @ stream_late w)"
      using buffered by simp
    also have "\<dots> = garbage @ take 2 (packet @ rest)"
      unfolding stream by simp
    also have "take 2 (packet @ rest) = [0x59, 0x59]"
      using p by simp
    finally show ?thesis .
  qed
  have rx: "stream_rx w = garbage @ (0x59 # 0x59 # b)"
  proof -
    have "stream_rx w = take (length garbage + 2) (stream_rx w) @ b"
      unfolding b_def by simp
    then show ?thesis unfolding head by simp
  qed
  have tail: "b @ stream_late w = body @ rest"
  proof -
    have "b @ stream_late w = drop (length garbage + 2) (stream_rx w @ stream_late w)"
      unfolding b_def using buffered by simp
    also have "\<dots> = drop 2 (packet @ rest)"
      unfolding stream by simp
    also have "\<dots> = body @ rest"
      using p by simp
    finally show ?thesis .
  qed
  have loop: "uart_receive_data_loop outp False w = Some (?out, True, ?w2)"
  proof -
    have "uart_receive_data_loop outp False w = uart_receive_data_loop outp False ?w1"
      by (rule uart_receive_data_loop_skip [OF _ rx])
         (use garbage in \<open>simp add: markers_paired_iff\<close>)
    also have "\<dots> = Some (?out, True, ?w2)"
      by (rule uart_receive_data_loop_found [where rest = b]) (use sz2 outp in simp_all)
    finally show ?thesis .
  qed
  have out: "?out = 0x59 # 0x59 # drop 2 outp"
    using sz2 outp by (cases outp; cases "tl outp") auto
  have filled: "(if body = [] then ?out
                 else take 2 ?out @ body @ drop (2 + length body) ?out) = packet"
  proof (cases "body = []")
    case True
    then have "unat sz = 2" using lb sz2 by simp
    then have "drop 2 outp = []" using outp by simp
    then show ?thesis unfolding out using True p by simp
  next
    case False
    then show ?thesis
      unfolding out using p lb sz2 outp by simp
  qed
  have got: "body = take (unat sz - 2) (stream_rx ?w2 @ stream_late ?w2)"
    using tail lb by simp
  have fits: "2 + length body \<le> length ?out"
    using lb sz2 outp by simp
  have n: "(of_nat (length body + 2) :: uint8_t) = sz"
    using lb sz2 by simp
  have rb: "Stream_readBytes ?out 2 (unat sz - 2) ?w2 =
              Some (length body, packet,
                    emit (Ev_stream_readBytes (unat sz - 2) body)
                      (?w2\<lparr>stream_rx := drop (unat sz - 2) (stream_rx ?w2),
                           stream_late := drop (unat sz - 2 - length (stream_rx ?w2))
                                            (stream_late ?w2)\<rparr>))"
    using Stream_readBytes_result [OF got fits] unfolding filled .
  have "unat sz - 2 + (length garbage + 2) = length garbage + unat sz"
    using sz2 by arith
  then have d1: "drop (unat sz - 2) b = drop (length garbage + unat sz) (stream_rx w)"
    unfolding b_def drop_drop by (rule arg_cong)
  have "length b = length (stream_rx w) - (length garbage + 2)"
    by (simp add: b_def)
  then have d2: "unat sz - Suc (Suc (length b))
                   = length garbage + unat sz - length (stream_rx w)"
    using buffered sz2 by arith
  have run: "uart_receive_data outp sz w =
           Some (True, packet,
                 w\<lparr>stream_rx := drop (length garbage + unat sz) (stream_rx w),
                   stream_late := drop (length garbage + unat sz - length (stream_rx w))
                                    (stream_late w),
                   events := events w @ map (\<lambda>b. Ev_stream_read (uint b)) garbage
                     @ [Ev_stream_read 0x59, Ev_stream_read 0x59,
                        Ev_stream_readBytes (unat sz - 2) (drop 2 packet)]\<rparr>)"
    apply (simp only: uart_receive_data_def loop unat_size_minus_2 [OF sz2]
             bind.bind_lunit prod.case rb Let_def n)
    apply (simp add: emit_def d1 d2 body_def)
    done
  have "drop (length garbage + unat sz) (stream_rx w)
          @ drop (length garbage + unat sz - length (stream_rx w)) (stream_late w)
        = drop (length garbage + unat sz) (stream_rx w @ stream_late w)"
    by simp
  also have "\<dots> = rest"
    unfolding stream using len by simp
  finally show ?thesis
    using run by simp
qed

text \<open>
  The witness: the stray bytes FF 59 00, then a data packet of 9 bytes, then one more byte;
  the stray bytes and the first three bytes of the packet are buffered, the rest arrives
  during the blocking read.
\<close>

theorem uart_receive_data_resynchronizes_witness:
  "markers_paired [0xFF, 0x59, 0x00]
   \<and> uart_receive_data (replicate 9 0) 9
       ((stream_driver ([0xFF, 0x59, 0x00] @ [0x59, 0x59, 0x01]) 64)
          \<lparr>stream_late := [0x00, 0x02, 0x00, 0x03, 0x00, 0xB8, 0x07]\<rparr>)
     = Some (True, [0x59, 0x59, 0x01, 0x00, 0x02, 0x00, 0x03, 0x00, 0xB8],
             (stream_driver [] 64)
               \<lparr>stream_late := [0x07],
                 events := [Ev_stream_read 0xFF, Ev_stream_read 0x59, Ev_stream_read 0x00,
                            Ev_stream_read 0x59, Ev_stream_read 0x59,
                            Ev_stream_readBytes 7 [0x01, 0x00, 0x02, 0x00, 0x03, 0x00, 0xB8]]\<rparr>)"
proof -
  let ?garbage = "[0xFF, 0x59, 0x00] :: uint8_t list"
  have g: "markers_paired ?garbage"
    by simp
  then have h: "\<forall>i<length ?garbage. ?garbage ! i = 0x59 \<longrightarrow>
                  Suc i < length ?garbage \<and> ?garbage ! Suc i \<noteq> 0x59"
    by (simp only: markers_paired_iff)
  show ?thesis
    using g uart_receive_data_resynchronizes
      [where w = "(stream_driver (?garbage @ [0x59, 0x59, 0x01]) 64)
                    \<lparr>stream_late := [0x00, 0x02, 0x00, 0x03, 0x00, 0xB8, 0x07]\<rparr>"
         and garbage = ?garbage
         and packet = "[0x59, 0x59, 0x01, 0x00, 0x02, 0x00, 0x03, 0x00, 0xB8]"
         and rest = "[0x07]" and sz = 9 and outp = "replicate 9 0", OF _ _ h]
    by (simp add: stream_driver_def)
qed

text \<open>
  C4 as stated (every stream of garbage followed by a packet) fails, in two ways.

  The routine takes the first marker byte that is followed at once by a second one as the
  header: with the single garbage byte 0x59 before the packet 59 59 01 00 02 00 03 00 B8,
  all buffered, it takes the garbage byte and the first marker as the header, returns
  59 59 59 01 00 02 00 03 00 and leaves the last byte of the packet in the stream.

  The loop ends when \<^verbatim>\<open>available()\<close> is 0, and \<^verbatim>\<open>readBytes\<close> is called whether or not the
  header was found: with the garbage byte FF buffered and the same packet arriving during
  the blocking read, the routine reads FF, finds nothing more buffered, reads the first
  seven bytes of the packet to offset 2 of the buffer and returns true, with the first two
  bytes of the buffer as they were and the last two bytes of the packet left in the stream.
\<close>

theorem uart_receive_data_misaligned:
  "uart_receive_data (replicate 9 0) 9
     (stream_driver ([0x59] @ [0x59, 0x59, 0x01, 0x00, 0x02, 0x00, 0x03, 0x00, 0xB8]) 64)
   = Some (True, [0x59, 0x59, 0x59, 0x01, 0x00, 0x02, 0x00, 0x03, 0x00],
           (stream_driver [0xB8] 64)
             \<lparr>events := [Ev_stream_read 0x59, Ev_stream_read 0x59,
                         Ev_stream_readBytes 7 [0x59, 0x01, 0x00, 0x02, 0x00, 0x03, 0x00]]\<rparr>)
   \<and> uart_receive_data (replicate 9 0) 9
       ((stream_driver [0xFF] 64)
          \<lparr>stream_late := [0x59, 0x59, 0x01, 0x00, 0x02, 0x00, 0x03, 0x00, 0xB8]\<rparr>)
     = Some (True, [0x00, 0x00, 0x59, 0x59, 0x01, 0x00, 0x02, 0x00, 0x03],
             (stream_driver [] 64)
               \<lparr>stream_late := [0x00, 0xB8],
                 events := [Ev_stream_read 0xFF,
                            Ev_stream_readBytes 7 [0x59, 0x59, 0x01, 0x00, 0x02, 0x00, 0x03]]\<rparr>)"
  by code_simp

subsection \<open>One exchange: command, wait, response\<close>

lemma send_command_i2c_mode:
  assumes "m_communications_mode w = TFMINI_PLUS_I2C"
    and "4 \<le> unat sz" and "unat sz - 4 \<le> length arguments"
  shows "send_command command arguments sz w =
     Some ((of_nat (min (unat sz) (wire_capacity w)) :: uint8_t) = sz \<and> wire_status w \<noteq> 0,
           w\<lparr>wire_tx_address := m_address w,
             wire_tx := take (min (unat sz) (wire_capacity w))
                          (command_packet command arguments sz),
             events := events w @ [Ev_wire_transmission (m_address w)
                          (take (min (unat sz) (wire_capacity w))
                             (command_packet command arguments sz)) (wire_status w)]\<rparr>)"
  unfolding send_command_packet [OF assms(2,3)]
  by (rule send_i2c_mode) (simp_all add: assms length_command_packet)

lemma send_command_uart_mode:
  assumes "m_communications_mode w = TFMINI_PLUS_UART"
    and "4 \<le> unat sz" and "unat sz - 4 \<le> length arguments"
  shows "send_command command arguments sz w =
     Some (sz = 1 \<and> 1 \<le> stream_accept w,
           w\<lparr>events := events w @ [Ev_stream_write
                          (take (unat sz) (command_packet command arguments sz))
                          (min (unat sz) (stream_accept w)), Ev_stream_flush]\<rparr>)"
  unfolding send_command_packet [OF assms(2,3)]
  by (rule send_uart_mode) (simp_all add: assms length_command_packet)

lemmas exchange_simps =
  send_command0_def send_command_i2c_mode send_command_uart_mode receive_i2c_mode
  receive_uart_mode do_i2c_wait_def delay_def emit_def pack_length_defs header_defs Let_def

lemma set_i2c_address_stores_argument:
  "set_i2c_address new w = Some (True, w') \<Longrightarrow> m_address w' = new"
  by (auto simp: set_i2c_address_def Let_def split: bind_splits if_splits prod.splits)

subsection \<open>The device address\<close>

text \<open>
  C9. The claim: \<^verbatim>\<open>set_i2c_address\<close> updates the stored address if and only if a valid
  response is received whose byte at offset 3 is the requested address; otherwise it
  returns false and the stored address is unchanged. The source takes a response as
  valid when \<^verbatim>\<open>receive\<close> returns true, and in bus mode \<^verbatim>\<open>receive\<close> compares the last byte
  with \<^verbatim>\<open>calculate_checksum(data, size - 1)\<close>, the sum of the first \<open>size - 2\<close> bytes. For
  the request of the address 0x20 to the device at 0x10: the response 5A 05 0B 20 8A,
  whose last byte is the sum of the four bytes before it and whose byte 3 is 0x20, is
  refused, the operation returns false and the stored address stays 0x10; the response
  5A 05 0B 20 6A, whose last byte is not that sum, is taken, the operation returns true
  and the stored address becomes 0x20.
\<close>

theorem set_i2c_address_refuses_valid_echo:
  "set_i2c_address 0x20 (bus_driver 0x10 [0x5A, 0x05, 0x0B, 0x20, 0x8A])
     = Some (False, (bus_driver 0x10 [])
          \<lparr>wire_tx_address := 0x10, wire_tx := [0x5A, 0x05, 0x0B, 0x20, 0x6A],
            events := [Ev_wire_transmission 0x10 [0x5A, 0x05, 0x0B, 0x20, 0x6A] 0,
                       Ev_delay 100, Ev_wire_requestFrom 0x10 5]\<rparr>)
   \<and> sum_list [0x5A, 0x05, 0x0B, 0x20 :: uint8_t] = 0x8A
   \<and> set_i2c_address 0x20 (bus_driver 0x10 [0x5A, 0x05, 0x0B, 0x20, 0x6A])
     = Some (True, (bus_driver 0x20 [])
          \<lparr>wire_tx_address := 0x10, wire_tx := [0x5A, 0x05, 0x0B, 0x20, 0x6A],
            events := [Ev_wire_transmission 0x10 [0x5A, 0x05, 0x0B, 0x20, 0x6A] 0,
                       Ev_delay 100, Ev_wire_requestFrom 0x10 5]\<rparr>)"
  by code_simp

text \<open>
  C10. \<^verbatim>\<open>begin(address)\<close> selects the bus mode and stores \<open>address AND 0x7F\<close>, a value
  below 0x80, whatever the argument; a later \<^verbatim>\<open>set_i2c_address\<close> that succeeds stores its
  argument as it is.
\<close>

theorem begin_address_masks_to_seven_bits:
  "m_address (begin_address address w) = address AND 0x7F
   \<and> m_address (begin_address address w) < 0x80
   \<and> m_communications_mode (begin_address address w) = TFMINI_PLUS_I2C
   \<and> (set_i2c_address new (begin_address address w) = Some (True, w') \<longrightarrow> m_address w' = new)"
proof -
  have "address AND 0x7F \<le> 0x7F"
    by (rule word_and_le1)
  then have "address AND 0x7F < 0x80"
    by (rule order_le_less_trans) simp
  moreover have "m_address w' = new"
    if "set_i2c_address new (begin_address address w) = Some (True, w')"
    using that by (rule set_i2c_address_stores_argument)
  ultimately show ?thesis
    by (simp add: begin_address_def)
qed

text \<open>
  The witness: after \<^verbatim>\<open>begin(0x10)\<close> the device acknowledges the address 0x90, and the
  stored address becomes 0x90, which is not below 0x80.
\<close>

theorem begin_address_masks_to_seven_bits_witness:
  "set_i2c_address 0x90 (begin_address 0x10 (bus_driver 0 [0x5A, 0x05, 0x0B, 0x90, 0x6A]))
     = Some (True, (bus_driver 0x90 [])
          \<lparr>wire_tx_address := 0x10, wire_tx := [0x5A, 0x05, 0x0B, 0x90, 0x6A],
            events := [Ev_wire_transmission 0x10 [0x5A, 0x05, 0x0B, 0x90, 0x6A] 0,
                       Ev_delay 100, Ev_wire_requestFrom 0x10 5]\<rparr>)
   \<and> m_address (begin_address 0x10 (bus_driver 0 [0x5A, 0x05, 0x0B, 0x90, 0x6A])) < 0x80
   \<and> \<not> m_address ((bus_driver 0x90 [])
          \<lparr>wire_tx_address := 0x10, wire_tx := [0x5A, 0x05, 0x0B, 0x90, 0x6A],
            events := [Ev_wire_transmission 0x10 [0x5A, 0x05, 0x0B, 0x90, 0x6A] 0,
                       Ev_delay 100, Ev_wire_requestFrom 0x10 5]\<rparr>) < 0x80"
proof -
  let ?w = "bus_driver 0 [0x5A, 0x05, 0x0B, 0x90, 0x6A]"
  let ?w' = "(bus_driver 0x90 [])
          \<lparr>wire_tx_address := 0x10, wire_tx := [0x5A, 0x05, 0x0B, 0x90, 0x6A],
            events := [Ev_wire_transmission 0x10 [0x5A, 0x05, 0x0B, 0x90, 0x6A] 0,
                       Ev_delay 100, Ev_wire_requestFrom 0x10 5]\<rparr>"
  have run: "set_i2c_address 0x90 (begin_address 0x10 ?w) = Some (True, ?w')"
    by code_simp
  have "m_address ?w' = 0x90"
    using begin_address_masks_to_seven_bits [of "0x10" ?w "0x90" ?w'] run by blast
  moreover have "m_address (begin_address 0x10 ?w) < 0x80"
    using begin_address_masks_to_seven_bits [of "0x10" ?w "0x90" ?w'] by blast
  ultimately show ?thesis
    using run by simp
qed

subsection \<open>The length byte of a response in bus mode\<close>

lemma not_accepted_length_byte:
  "2 \<le> unat sz \<Longrightarrow> unat sz \<le> length device \<Longrightarrow> device ! 1 \<noteq> sz \<Longrightarrow>
   \<not> accepted (take (unat sz) device) sz"
  by (simp add: accepted_def)

lemma receive_rejects_length_byte:
  assumes "m_communications_mode w = TFMINI_PLUS_I2C"
    and "2 \<le> unat sz" and "length outp = unat sz"
    and "unat sz \<le> length (wire_device w)" and "wire_device w ! 1 \<noteq> sz"
  shows "\<exists>response w'. receive outp sz w = Some (False, response, w')"
  using assms by (simp add: receive_i2c_mode not_accepted_length_byte)

lemma run_rejects_length_byte:
  assumes "m_communications_mode w = TFMINI_PLUS_I2C"
    and "response_size op = Some n"
    and "unat n \<le> length (wire_device w)" and "wire_device w ! 1 \<noteq> n"
  shows "\<exists>out w'. run op w = Some (out, w') \<and> failed out"
proof (cases op)
  case (Op_set_i2c_address address)
  then show ?thesis
    using assms
    by (simp add: set_i2c_address_def exchange_simps accepted_def)
next
  case Op_get_version
  then show ?thesis
    using assms
    by (simp add: get_version_def exchange_simps accepted_def)
next
  case (Op_set_framerate framerate)
  then show ?thesis
    using assms
    by (simp add: set_framerate_def exchange_simps accepted_def)
next
  case (Op_set_baudrate baudrate)
  then show ?thesis
    using assms
    by (simp add: set_baudrate_def exchange_simps accepted_def)
next
  case (Op_set_output_format format)
  then show ?thesis
    using assms
    by (simp add: set_output_format_def exchange_simps accepted_def)
next
  case (Op_read_manual_reading data)
  then show ?thesis
    using assms
    by (simp add: read_manual_reading_def read_data_response_def exchange_simps accepted_def)
next
  case (Op_read_data data in_mm_format)
  then show ?thesis
    using assms
    by (simp add: read_data_def read_data_response_def exchange_simps accepted_def)
next
  case (Op_set_io_mode mode critical_distance hysteresis)
  then show ?thesis using assms by simp
next
  case (Op_set_communication_interface mode)
  then show ?thesis using assms by simp
next
  case (Op_enable_output output_enabled)
  then show ?thesis
    using assms
    by (simp add: enable_output_def exchange_simps accepted_def)
next
  case Op_save_settings
  then show ?thesis
    using assms
    by (simp add: save_settings_def exchange_simps accepted_def)
next
  case Op_reset_system
  then show ?thesis
    using assms
    by (simp add: reset_system_def exchange_simps accepted_def)
next
  case Op_factory_reset
  then show ?thesis
    using assms
    by (simp add: factory_reset_def exchange_simps accepted_def)
qed

text \<open>
  C5. In bus mode a response whose byte at offset 1 differs from the expected size is
  rejected by the receive step, and the operation fails, whatever its checksum byte is.
  For a driver in bus mode whose device answers at least \<open>sz\<close> bytes, the second of them
  not \<open>sz\<close>: \<^verbatim>\<open>receive\<close> with the expected size \<open>sz\<close> returns false, and every operation
  that returns a result and expects a response of \<open>sz\<close> bytes returns failure (false, or
  the version struct not filled). Nothing is assumed about the checksum.
\<close>

theorem bus_response_with_wrong_length_byte_is_rejected:
  assumes "m_communications_mode w = TFMINI_PLUS_I2C"
    and "unat sz \<le> length (wire_device w)" and "wire_device w ! 1 \<noteq> sz"
  shows "(2 \<le> unat sz \<and> length outp = unat sz \<longrightarrow>
            (\<exists>response w'. receive outp sz w = Some (False, response, w')))
       \<and> (response_size op = Some sz \<longrightarrow>
            (\<exists>out w'. run op w = Some (out, w') \<and> failed out))"
  using assms receive_rejects_length_byte [of w sz outp] run_rejects_length_byte [of w op sz]
  by blast

text \<open>
  The witness: the device answers 5A 07 03 FF 00 63 to \<^verbatim>\<open>set_framerate\<close>, which expects 6
  bytes. The checksum byte 63 is the one \<^verbatim>\<open>compare_checksum\<close> accepts and also the sum of
  the five bytes before it; the length byte is 7, and the operation fails. The same answer
  with the length byte 6 (and its checksum 62) makes the operation succeed.
\<close>

theorem bus_response_with_wrong_length_byte_is_rejected_witness:
  "compare_checksum [0x5A, 0x07, 0x03, 0xFF, 0x00, 0x63] 6 = Some True
   \<and> sum_list [0x5A, 0x07, 0x03, 0xFF, 0x00 :: uint8_t] = 0x63
   \<and> (\<exists>response w'. receive (replicate 6 0) 6
          (bus_driver 0x10 [0x5A, 0x07, 0x03, 0xFF, 0x00, 0x63]) = Some (False, response, w'))
   \<and> (\<exists>out w'. run (Op_set_framerate TFMINI_PLUS_FRAMERATE_100HZ)
          (bus_driver 0x10 [0x5A, 0x07, 0x03, 0xFF, 0x00, 0x63]) = Some (out, w') \<and> failed out)
   \<and> run (Op_set_framerate TFMINI_PLUS_FRAMERATE_100HZ)
          (bus_driver 0x10 [0x5A, 0x06, 0x03, 0xFF, 0x00, 0x62])
       = Some (Flag True, (bus_driver 0x10 [])
           \<lparr>wire_tx_address := 0x10, wire_tx := [0x5A, 0x06, 0x03, 0xFF, 0x00, 0x62],
             events := [Ev_wire_transmission 0x10 [0x5A, 0x06, 0x03, 0xFF, 0x00, 0x62] 0,
                        Ev_delay 100, Ev_wire_requestFrom 0x10 6]\<rparr>)"
proof -
  have a: "compare_checksum [0x5A, 0x07, 0x03, 0xFF, 0x00, 0x63] 6 = Some True"
    by code_simp
  have b: "run (Op_set_framerate TFMINI_PLUS_FRAMERATE_100HZ)
          (bus_driver 0x10 [0x5A, 0x06, 0x03, 0xFF, 0x00, 0x62])
       = Some (Flag True, (bus_driver 0x10 [])
           \<lparr>wire_tx_address := 0x10, wire_tx := [0x5A, 0x06, 0x03, 0xFF, 0x00, 0x62],
             events := [Ev_wire_transmission 0x10 [0x5A, 0x06, 0x03, 0xFF, 0x00, 0x62] 0,
                        Ev_delay 100, Ev_wire_requestFrom 0x10 6]\<rparr>)"
    by code_simp
  show ?thesis
    using bus_response_with_wrong_length_byte_is_rejected
      [where w = "bus_driver 0x10 [0x5A, 0x07, 0x03, 0xFF, 0x00, 0x63]" and sz = 6
         and outp = "replicate 6 0" and op = "Op_set_framerate TFMINI_PLUS_FRAMERATE_100HZ"]
      a b
    by (simp add: bus_driver_def pack_length_defs)
qed

subsection \<open>The settle delay\<close>

lemma run_settled_bus:
  assumes "m_communications_mode w = TFMINI_PLUS_I2C" and "\<not> is_read_data op"
  shows "\<exists>es. map_option (events \<circ> snd) (run op w) = Some (events w @ es) \<and> settled False es"
proof (cases op)
  case (Op_set_i2c_address address)
  then show ?thesis
    using assms by (simp add: set_i2c_address_def exchange_simps load_def del: map_option_eq_Some)
next
  case Op_get_version
  then show ?thesis
    using assms by (simp add: get_version_def exchange_simps load_def del: map_option_eq_Some)
next
  case (Op_set_framerate framerate)
  then show ?thesis
    using assms by (simp add: set_framerate_def exchange_simps load_def del: map_option_eq_Some)
next
  case (Op_set_baudrate baudrate)
  then show ?thesis
    using assms by (simp add: set_baudrate_def exchange_simps load_def del: map_option_eq_Some)
next
  case (Op_set_output_format format)
  then show ?thesis
    using assms by (simp add: set_output_format_def exchange_simps load_def del: map_option_eq_Some)
next
  case (Op_read_manual_reading data)
  then show ?thesis
    using assms
    by (simp add: read_manual_reading_def read_data_response_def exchange_simps load_def del: map_option_eq_Some)
next
  case (Op_read_data data in_mm_format)
  then show ?thesis using assms by simp
next
  case (Op_set_io_mode mode critical_distance hysteresis)
  then show ?thesis
    using assms by (simp add: set_io_mode_def exchange_simps del: map_option_eq_Some)
next
  case (Op_set_communication_interface mode)
  then show ?thesis
    using assms
    by (simp add: set_communication_interface_def save_settings_def exchange_simps load_def del: map_option_eq_Some)
next
  case (Op_enable_output output_enabled)
  then show ?thesis
    using assms by (simp add: enable_output_def exchange_simps load_def del: map_option_eq_Some)
next
  case Op_save_settings
  then show ?thesis
    using assms by (simp add: save_settings_def exchange_simps load_def del: map_option_eq_Some)
next
  case Op_reset_system
  then show ?thesis
    using assms by (simp add: reset_system_def exchange_simps load_def del: map_option_eq_Some)
next
  case Op_factory_reset
  then show ?thesis
    using assms by (simp add: factory_reset_def exchange_simps load_def del: map_option_eq_Some)
qed

lemma Stream_read_effect:
  "Stream_read w = (c, w1) \<Longrightarrow>
   m_communications_mode w1 = m_communications_mode w \<and> events w1 = events w @ [Ev_stream_read c]"
  by (auto simp: Stream_read_def emit_def split: list.splits)

lemma uart_receive_data_loop_quiet:
  "2 \<le> length outp \<Longrightarrow>
   \<exists>outp' found' w' es.
     uart_receive_data_loop outp found w = Some (outp', found', w')
     \<and> length outp' = length outp
     \<and> m_communications_mode w' = m_communications_mode w
     \<and> events w' = events w @ es \<and> \<not> list_ex is_delay es"
proof (induction outp found w rule: uart_receive_data_loop.induct)
  case (1 outp found w)
  show ?case
  proof (cases "Stream_available w \<noteq> 0 \<and> \<not> found")
    case False
    then have "uart_receive_data_loop outp found w = Some (outp, found, w)"
      by (subst uart_receive_data_loop.simps) auto
    then show ?thesis by simp
  next
    case True
    obtain c1 w1 where r1: "Stream_read w = (c1, w1)"
      by fastforce
    note e1 = Stream_read_effect [OF r1]
    show ?thesis
    proof (cases "c1 = TFMINI_PLUS_RESPONSE_FRAME_HEADER")
      case False
      have step: "uart_receive_data_loop outp found w = uart_receive_data_loop outp found w1"
        using True False by (subst uart_receive_data_loop.simps) (simp add: r1)
      from "1.IH"(3) [OF True refl r1 [symmetric] False "1.prems"]
      obtain outp' found' w' es where
        "uart_receive_data_loop outp found w1 = Some (outp', found', w')"
        "length outp' = length outp" "m_communications_mode w' = m_communications_mode w1"
        "events w' = events w1 @ es" "\<not> list_ex is_delay es"
        by blast
      then have "uart_receive_data_loop outp found w = Some (outp', found', w')
          \<and> length outp' = length outp \<and> m_communications_mode w' = m_communications_mode w
          \<and> events w' = events w @ (Ev_stream_read c1 # es)
          \<and> \<not> list_ex is_delay (Ev_stream_read c1 # es)"
        using step e1 by simp
      then show ?thesis by blast
    next
      case hdr1: True
      obtain c2 w2 where r2: "Stream_read w1 = (c2, w2)"
        by fastforce
      note e2 = Stream_read_effect [OF r2]
      show ?thesis
      proof (cases "c2 = TFMINI_PLUS_RESPONSE_FRAME_HEADER")
        case False
        have step: "uart_receive_data_loop outp found w = uart_receive_data_loop outp found w2"
          using True hdr1 False by (subst uart_receive_data_loop.simps) (simp add: r1 r2)
        from "1.IH"(2) [OF True refl r1 [symmetric] hdr1 refl r2 [symmetric] False "1.prems"]
        obtain outp' found' w' es where
          "uart_receive_data_loop outp found w2 = Some (outp', found', w')"
          "length outp' = length outp" "m_communications_mode w' = m_communications_mode w2"
          "events w' = events w2 @ es" "\<not> list_ex is_delay es"
          by blast
        then have "uart_receive_data_loop outp found w = Some (outp', found', w')
            \<and> length outp' = length outp \<and> m_communications_mode w' = m_communications_mode w
            \<and> events w' = events w @ (Ev_stream_read c1 # Ev_stream_read c2 # es)
            \<and> \<not> list_ex is_delay (Ev_stream_read c1 # Ev_stream_read c2 # es)"
          using step e1 e2 by simp
        then show ?thesis by blast
      next
        case hdr2: True
        let ?h = "word_of_int TFMINI_PLUS_RESPONSE_FRAME_HEADER :: uint8_t"
        let ?o1 = "outp[0 := ?h]"
        let ?o2 = "?o1[1 := ?h]"
        have s1: "store outp 0 ?h = Some ?o1" and s2: "store ?o1 1 ?h = Some ?o2"
          using "1.prems" by (auto simp: store_def)
        have step: "uart_receive_data_loop outp found w = uart_receive_data_loop ?o2 True w2"
          using True hdr1 hdr2
          by (subst uart_receive_data_loop.simps) (simp add: r1 r2 s1 s2)
        have "2 \<le> length ?o2" using "1.prems" by simp
        from "1.IH"(1) [OF True refl r1 [symmetric] hdr1 refl r2 [symmetric] hdr2 s1 s2 this]
        obtain outp' found' w' es where
          "uart_receive_data_loop ?o2 True w2 = Some (outp', found', w')"
          "length outp' = length ?o2" "m_communications_mode w' = m_communications_mode w2"
          "events w' = events w2 @ es" "\<not> list_ex is_delay es"
          by blast
        then have "uart_receive_data_loop outp found w = Some (outp', found', w')
            \<and> length outp' = length outp \<and> m_communications_mode w' = m_communications_mode w
            \<and> events w' = events w @ (Ev_stream_read c1 # Ev_stream_read c2 # es)
            \<and> \<not> list_ex is_delay (Ev_stream_read c1 # Ev_stream_read c2 # es)"
          using step e1 e2 by simp
        then show ?thesis by blast
      qed
    qed
  qed
qed

lemma uart_receive_data_quiet:
  assumes "2 \<le> unat sz" and "length outp = unat sz"
  shows "\<exists>result outp' w' es.
     uart_receive_data outp sz w = Some (result, outp', w')
     \<and> length outp' = unat sz
     \<and> events w' = events w @ es \<and> \<not> list_ex is_delay es"
proof -
  obtain o1 f1 w1 es where
    loop: "uart_receive_data_loop outp False w = Some (o1, f1, w1)"
    and l1: "length o1 = length outp"
    and e1: "events w1 = events w @ es" and q1: "\<not> list_ex is_delay es"
    using uart_receive_data_loop_quiet [of outp False w] assms by auto
  let ?n = "unat sz - 2"
  define got where "got = take ?n (stream_rx w1 @ stream_late w1)"
  let ?o2 = "if got = [] then o1 else take 2 o1 @ got @ drop (2 + length got) o1"
  let ?w2 = "emit (Ev_stream_readBytes ?n got)
               (w1\<lparr>stream_rx := drop ?n (stream_rx w1),
                   stream_late := drop (?n - length (stream_rx w1)) (stream_late w1)\<rparr>)"
  have "length got \<le> ?n"
    by (simp add: got_def)
  then have fits: "2 + length got \<le> length o1"
    using assms l1 by arith
  have l2: "length ?o2 = unat sz"
    using fits assms l1 by (simp; arith)
  have rb: "Stream_readBytes o1 2 ?n w1 = Some (length got, ?o2, ?w2)"
    by (rule Stream_readBytes_result [OF got_def fits])
  have "uart_receive_data outp sz w
          = Some ((of_nat (length got + 2) :: uint8_t) = sz, ?o2, ?w2)"
    by (simp only: uart_receive_data_def loop unat_size_minus_2 [OF assms(1)]
          bind.bind_lunit prod.case rb Let_def)
  moreover have "events ?w2 = events w @ (es @ [Ev_stream_readBytes ?n got])"
    using e1 by (simp add: emit_def)
  moreover have "\<not> list_ex is_delay (es @ [Ev_stream_readBytes ?n got])"
    using q1 by simp
  ultimately show ?thesis
    using l2 by blast
qed

lemma read_data_response_quiet_stream:
  assumes "m_communications_mode w = TFMINI_PLUS_UART"
  shows "\<exists>es. map_option (events \<circ> snd \<circ> snd) (read_data_response data w)
                 = Some (events w @ es) \<and> \<not> list_ex is_delay es"
proof -
  obtain result response w' es where
    r: "uart_receive_data (replicate (unat TFMINI_PLUS_PACK_LENGTH_DATA_RESPONSE) 0)
          TFMINI_PLUS_PACK_LENGTH_DATA_RESPONSE w = Some (result, response, w')"
    and l: "length response = unat TFMINI_PLUS_PACK_LENGTH_DATA_RESPONSE"
    and e: "events w' = events w @ es" and q: "\<not> list_ex is_delay es"
    using uart_receive_data_quiet [of TFMINI_PLUS_PACK_LENGTH_DATA_RESPONSE
            "replicate (unat TFMINI_PLUS_PACK_LENGTH_DATA_RESPONSE) 0" w]
    by (auto simp: pack_length_defs)
  have "length response = 9"
    using l by (simp add: pack_length_defs)
  then have "map_option (events \<circ> snd \<circ> snd) (read_data_response data w) = Some (events w')"
    using assms by (simp add: read_data_response_def r load_def Let_def del: map_option_eq_Some)
  then show ?thesis
    using e q by auto
qed

lemma run_quiet_stream:
  assumes "m_communications_mode w = TFMINI_PLUS_UART"
  shows "\<exists>es. map_option (events \<circ> snd) (run op w) = Some (events w @ es)
              \<and> \<not> list_ex is_delay es"
proof (cases op)
  case (Op_set_i2c_address address)
  then show ?thesis
    using assms
    by (simp add: set_i2c_address_def exchange_simps load_def del: map_option_eq_Some)
next
  case Op_get_version
  then show ?thesis
    using assms by (simp add: get_version_def exchange_simps load_def del: map_option_eq_Some)
next
  case (Op_set_framerate framerate)
  then show ?thesis
    using assms by (simp add: set_framerate_def exchange_simps load_def del: map_option_eq_Some)
next
  case (Op_set_baudrate baudrate)
  then show ?thesis
    using assms by (simp add: set_baudrate_def exchange_simps load_def del: map_option_eq_Some)
next
  case (Op_set_output_format format)
  then show ?thesis
    using assms
    by (simp add: set_output_format_def exchange_simps load_def del: map_option_eq_Some)
next
  case (Op_read_manual_reading data)
  let ?sent = "[Ev_stream_write (take 4 (command_packet TFMINI_PLUS_TRIGGER_DETECTION [] 4))
                  (min 4 (stream_accept w)), Ev_stream_flush]"
  let ?w1 = "w\<lparr>events := events w @ ?sent\<rparr>"
  have "read_manual_reading data w = read_data_response data ?w1"
    using assms by (simp add: read_manual_reading_def exchange_simps)
  moreover obtain es where
    "map_option (events \<circ> snd \<circ> snd) (read_data_response data ?w1) = Some (events ?w1 @ es)"
    "\<not> list_ex is_delay es"
    using read_data_response_quiet_stream [of ?w1 data] assms by auto
  ultimately have "map_option (events \<circ> snd) (run op w) = Some (events w @ (?sent @ es))
                   \<and> \<not> list_ex is_delay (?sent @ es)"
    using Op_read_manual_reading
    by (simp add: option.map_comp comp_def case_prod_unfold del: map_option_eq_Some)
  then show ?thesis by blast
next
  case (Op_read_data data in_mm_format)
  have "read_data data in_mm_format w = read_data_response data w"
    using assms by (simp add: read_data_def)
  moreover obtain es where
    "map_option (events \<circ> snd \<circ> snd) (read_data_response data w) = Some (events w @ es)"
    "\<not> list_ex is_delay es"
    using read_data_response_quiet_stream [of w data] assms by auto
  ultimately have "map_option (events \<circ> snd) (run op w) = Some (events w @ es)
                   \<and> \<not> list_ex is_delay es"
    using Op_read_data
    by (simp add: option.map_comp comp_def case_prod_unfold del: map_option_eq_Some)
  then show ?thesis by blast
next
  case (Op_set_io_mode mode critical_distance hysteresis)
  then show ?thesis
    using assms by (simp add: set_io_mode_def exchange_simps del: map_option_eq_Some)
next
  case (Op_set_communication_interface mode)
  then show ?thesis
    using assms
    by (simp add: set_communication_interface_def save_settings_def exchange_simps load_def
             del: map_option_eq_Some)
next
  case (Op_enable_output output_enabled)
  then show ?thesis
    using assms by (simp add: enable_output_def exchange_simps load_def del: map_option_eq_Some)
next
  case Op_save_settings
  then show ?thesis
    using assms by (simp add: save_settings_def exchange_simps load_def del: map_option_eq_Some)
next
  case Op_reset_system
  then show ?thesis
    using assms by (simp add: reset_system_def exchange_simps load_def del: map_option_eq_Some)
next
  case Op_factory_reset
  then show ?thesis
    using assms by (simp add: factory_reset_def exchange_simps load_def del: map_option_eq_Some)
qed

lemma read_data_bus_trace:
  assumes "m_communications_mode w = TFMINI_PLUS_I2C"
  shows "\<exists>packet. map_option (events \<circ> snd) (run (Op_read_data data in_mm_format) w)
           = Some (events w @ [Ev_wire_transmission (m_address w) packet (wire_status w),
                               Ev_wire_requestFrom (m_address w)
                                 TFMINI_PLUS_PACK_LENGTH_DATA_RESPONSE])"
  using assms
  by (simp add: read_data_def read_data_response_def exchange_simps load_def
           del: map_option_eq_Some)

text \<open>
  C8, as amended. The claim: in bus mode no operation reads the response before the
  settle delay has passed since the command was sent, and in streaming mode no delay is
  inserted. Of the trace an operation adds to the events of the driver:
  \<^item> in bus mode, for every operation but \<^verbatim>\<open>read_data\<close>, no response is requested while a
    command is pending: \<^verbatim>\<open>delay(100)\<close> lies between the last transmission and the request;
  \<^item> \<^verbatim>\<open>read_data\<close> in bus mode transmits its command and requests the 9 bytes of the
    response at once (the source documents the wait as not required when a data packet is
    requested);
  \<^item> in streaming mode no operation calls \<^verbatim>\<open>delay\<close>.
  Every operation returns in both modes (the trace exists).
\<close>

theorem settle_delay_precedes_bus_reads_except_read_data:
  "(m_communications_mode w = TFMINI_PLUS_I2C \<and> \<not> is_read_data op \<longrightarrow>
      (\<exists>es. map_option (events \<circ> snd) (run op w) = Some (events w @ es) \<and> settled False es))
   \<and> (m_communications_mode w = TFMINI_PLUS_I2C \<longrightarrow>
      (\<exists>packet. map_option (events \<circ> snd) (run (Op_read_data data in_mm_format) w)
         = Some (events w @ [Ev_wire_transmission (m_address w) packet (wire_status w),
                             Ev_wire_requestFrom (m_address w)
                               TFMINI_PLUS_PACK_LENGTH_DATA_RESPONSE])))
   \<and> (m_communications_mode w = TFMINI_PLUS_UART \<longrightarrow>
      (\<exists>es. map_option (events \<circ> snd) (run op w) = Some (events w @ es)
            \<and> \<not> list_ex is_delay es))"
  using run_settled_bus [of w op] read_data_bus_trace [of w data in_mm_format]
    run_quiet_stream [of w op]
  by blast

text \<open>
  The witness: \<^verbatim>\<open>set_framerate\<close> in bus mode transmits, waits 100 ms and requests 6 bytes;
  \<^verbatim>\<open>save_settings\<close> in streaming mode writes, flushes and reads, with no delay.
\<close>

theorem settle_delay_precedes_bus_reads_except_read_data_witness:
  "map_option (events \<circ> snd)
     (run (Op_set_framerate TFMINI_PLUS_FRAMERATE_100HZ) (bus_driver 0x10 []))
     = Some [Ev_wire_transmission 0x10 [0x5A, 0x06, 0x03, 0xFF, 0x00, 0x62] 0,
             Ev_delay 100, Ev_wire_requestFrom 0x10 6]
   \<and> settled False [Ev_wire_transmission 0x10 [0x5A, 0x06, 0x03, 0xFF, 0x00, 0x62] 0,
                     Ev_delay 100, Ev_wire_requestFrom 0x10 6]
   \<and> map_option (events \<circ> snd)
     (run (Op_save_settings) (stream_driver [0x5A, 0x05, 0x11, 0x00, 0x70] 64))
     = Some [Ev_stream_write [0x5A, 0x04, 0x11, 0x5E] 4, Ev_stream_flush,
             Ev_stream_readBytes 5 [0x5A, 0x05, 0x11, 0x00, 0x70]]
   \<and> \<not> list_ex is_delay [Ev_stream_write [0x5A, 0x04, 0x11, 0x5E] 4, Ev_stream_flush,
             Ev_stream_readBytes 5 [0x5A, 0x05, 0x11, 0x00, 0x70]]"
proof -
  let ?bus = "bus_driver 0x10 []"
  let ?stream = "stream_driver [0x5A, 0x05, 0x11, 0x00, 0x70] 64"
  let ?d = "\<lparr>distance = 0, strength = 0, temperature = 0\<rparr>"
  have b: "map_option (events \<circ> snd) (run (Op_set_framerate TFMINI_PLUS_FRAMERATE_100HZ) ?bus)
     = Some [Ev_wire_transmission 0x10 [0x5A, 0x06, 0x03, 0xFF, 0x00, 0x62] 0,
             Ev_delay 100, Ev_wire_requestFrom 0x10 6]"
    by code_simp
  have s: "map_option (events \<circ> snd) (run (Op_save_settings) ?stream)
     = Some [Ev_stream_write [0x5A, 0x04, 0x11, 0x5E] 4, Ev_stream_flush,
             Ev_stream_readBytes 5 [0x5A, 0x05, 0x11, 0x00, 0x70]]"
    by code_simp
  have mb: "m_communications_mode ?bus = TFMINI_PLUS_I2C" "events ?bus = []"
    and ms: "m_communications_mode ?stream = TFMINI_PLUS_UART" "events ?stream = []"
    by (simp_all add: bus_driver_def stream_driver_def)
  from settle_delay_precedes_bus_reads_except_read_data
         [of ?bus "Op_set_framerate TFMINI_PLUS_FRAMERATE_100HZ" ?d False]
  have "settled False [Ev_wire_transmission 0x10 [0x5A, 0x06, 0x03, 0xFF, 0x00, 0x62] 0,
                       Ev_delay 100, Ev_wire_requestFrom 0x10 6]"
    unfolding b mb by auto
  moreover
  from settle_delay_precedes_bus_reads_except_read_data
         [of ?stream "Op_save_settings" ?d False]
  have "\<not> list_ex is_delay [Ev_stream_write [0x5A, 0x04, 0x11, 0x5E] 4, Ev_stream_flush,
             Ev_stream_readBytes 5 [0x5A, 0x05, 0x11, 0x00, 0x70]]"
    unfolding s ms by auto
  ultimately show ?thesis
    using b s by blast
qed

text \<open>
  C8 as stated (every operation in bus mode) fails for \<^verbatim>\<open>read_data\<close>: its trace in bus
  mode is the transmission of the get-data command followed at once by the request for
  the response.
\<close>

theorem read_data_bus_requests_without_delay:
  "read_data \<lparr>distance = 0, strength = 0, temperature = 0\<rparr> False (bus_driver 0x10 [])
     = Some (False, \<lparr>distance = 0, strength = 0, temperature = 0\<rparr>,
             (bus_driver 0x10 [])
               \<lparr>wire_tx_address := 0x10, wire_tx := [0x5A, 0x05, 0x00, 0x00, 0x5F],
                 events := [Ev_wire_transmission 0x10 [0x5A, 0x05, 0x00, 0x00, 0x5F] 0,
                            Ev_wire_requestFrom 0x10 9]\<rparr>)
   \<and> \<not> settled False [Ev_wire_transmission 0x10 [0x5A, 0x05, 0x00, 0x00, 0x5F] 0,
                       Ev_wire_requestFrom 0x10 9]"
  by code_simp

end
